theory Spec2Isabelle
  imports Complex_Main
begin

section \<open>JavaScript numbers\<close>

text \<open>
  The program computes with JavaScript numbers (IEEE binary64) and stores particle data in
  \<^verbatim>\<open>Float32Array\<close>s (IEEE binary32). The claims below speak about finiteness of stored
  values, so the model keeps the special values and the two finite ranges, and idealises the
  rest: a finite number is a real number, an arithmetic operation on finite numbers
  yields the exact real result unless that result lies beyond the binary64 range, where it
  overflows to an infinity as round-to-nearest does. Rounding of the mantissa, underflow and
  the sign of zero are not modelled (the source never divides by a value that can be zero).
\<close>

datatype jsnum = Num real | PosInf | NegInf | NaN

text \<open>Round-to-nearest overflows at the largest finite value plus half a unit in the last
  place: \<open>2^1024 - 2^970\<close> for binary64 and \<open>2^128 - 2^103\<close> for binary32.\<close>

definition dbl_overflow :: real where
  "dbl_overflow = 2 ^ 1024 - 2 ^ 970"

definition f32_overflow :: real where
  "f32_overflow = 2 ^ 128 - 2 ^ 103"

definition d64 :: "real \<Rightarrow> jsnum" where
  "d64 x = (if dbl_overflow \<le> x then PosInf
            else if x \<le> - dbl_overflow then NegInf
            else Num x)"

fun jneg :: "jsnum \<Rightarrow> jsnum" where
  "jneg (Num a) = Num (- a)"
| "jneg PosInf = NegInf"
| "jneg NegInf = PosInf"
| "jneg NaN = NaN"

fun jadd :: "jsnum \<Rightarrow> jsnum \<Rightarrow> jsnum" where
  "jadd (Num a) (Num b) = d64 (a + b)"
| "jadd NaN _ = NaN"
| "jadd _ NaN = NaN"
| "jadd PosInf NegInf = NaN"
| "jadd NegInf PosInf = NaN"
| "jadd PosInf _ = PosInf"
| "jadd _ PosInf = PosInf"
| "jadd NegInf _ = NegInf"
| "jadd _ NegInf = NegInf"

definition jsub :: "jsnum \<Rightarrow> jsnum \<Rightarrow> jsnum" where
  "jsub a b = jadd a (jneg b)"

fun jsign_mul :: "jsnum \<Rightarrow> real \<Rightarrow> jsnum" where
  "jsign_mul i b = (if b = 0 then NaN else if 0 < b then i else jneg i)"

fun jmul :: "jsnum \<Rightarrow> jsnum \<Rightarrow> jsnum" where
  "jmul (Num a) (Num b) = d64 (a * b)"
| "jmul NaN _ = NaN"
| "jmul _ NaN = NaN"
| "jmul PosInf (Num b) = jsign_mul PosInf b"
| "jmul NegInf (Num b) = jsign_mul NegInf b"
| "jmul (Num a) PosInf = jsign_mul PosInf a"
| "jmul (Num a) NegInf = jsign_mul NegInf a"
| "jmul PosInf PosInf = PosInf"
| "jmul NegInf NegInf = PosInf"
| "jmul PosInf NegInf = NegInf"
| "jmul NegInf PosInf = NegInf"

fun jdiv :: "jsnum \<Rightarrow> jsnum \<Rightarrow> jsnum" where
  "jdiv (Num a) (Num b) =
     (if b = 0 then (if a = 0 then NaN else if 0 < a then PosInf else NegInf)
      else d64 (a / b))"
| "jdiv NaN _ = NaN"
| "jdiv _ NaN = NaN"
| "jdiv (Num a) _ = Num 0"
| "jdiv PosInf (Num b) = (if 0 \<le> b then PosInf else NegInf)"
| "jdiv NegInf (Num b) = (if 0 \<le> b then NegInf else PosInf)"
| "jdiv _ _ = NaN"

text \<open>\<^verbatim>\<open>Math.sin\<close>\<close>

fun Math_sin :: "jsnum \<Rightarrow> jsnum" where
  "Math_sin (Num a) = Num (sin a)"
| "Math_sin _ = NaN"

fun isFinite :: "jsnum \<Rightarrow> bool" where
  "isFinite (Num a) = True"
| "isFinite _ = False"

text \<open>Conversion of a number to binary32, as a store into a \<^verbatim>\<open>Float32Array\<close> does.\<close>

fun f32 :: "jsnum \<Rightarrow> jsnum" where
  "f32 (Num a) = (if f32_overflow \<le> a then PosInf
                  else if a \<le> - f32_overflow then NegInf
                  else Num a)"
| "f32 v = v"

subsection \<open>Typed arrays\<close>

type_synonym Float32Array = "jsnum list"

datatype error = RangeError | TypeError
  | InvalidConfigurationError | UseAfterDisposeError | UnknownFieldError

text \<open>The source can fail only through the two built-in errors: a \<^verbatim>\<open>RangeError\<close> from a
  typed-array allocation that the runtime refuses and a \<^verbatim>\<open>TypeError\<close> from indexing
  \<^verbatim>\<open>undefined\<close>. The last three constructors are the error names of the specification; no
  path of the source constructs them.\<close>

text \<open>The JavaScript runtime that the program runs on is a parameter \<open>rs\<close> of the model: the
  sequence of numbers that its \<^verbatim>\<open>Math.random()\<close> draws during the run, and the largest
  length for which it allocates a typed array.\<close>

record runtime =
  draw :: "nat \<Rightarrow> real"
  max_length :: nat

text \<open>\<^verbatim>\<open>new Float32Array(len)\<close> for an integer \<open>len\<close>: a \<^verbatim>\<open>RangeError\<close> for a negative length,
  for a length beyond \<open>2^53 - 1\<close> (the largest index of the language) and for a length that
  the runtime does not allocate; an array of zeros otherwise.\<close>

definition max_index :: int where
  "max_index = 2 ^ 53 - 1"

definition allocates :: "runtime \<Rightarrow> int \<Rightarrow> bool" where
  "allocates rs len \<longleftrightarrow> 0 \<le> len \<and> len \<le> max_index \<and> len \<le> int (max_length rs)"

definition new_Float32Array :: "runtime \<Rightarrow> int \<Rightarrow> error + Float32Array" where
  "new_Float32Array rs len =
     (if allocates rs len then Inr (replicate (nat len) (Num 0)) else Inl RangeError)"

text \<open>Reading beyond the end yields \<^verbatim>\<open>undefined\<close>, which every arithmetic operation turns
  into \<^verbatim>\<open>NaN\<close>; writing beyond the end is ignored.\<close>

definition f32_get :: "Float32Array \<Rightarrow> nat \<Rightarrow> jsnum" where
  "f32_get a j = (if j < length a then a ! j else NaN)"

definition f32_set :: "Float32Array \<Rightarrow> nat \<Rightarrow> jsnum \<Rightarrow> Float32Array" where
  "f32_set a j v = a[j := f32 v]"

section \<open>The attractor catalog (attractors.ts)\<close>

type_synonym AttractorParams = "string \<rightharpoonup> jsnum"

text \<open>\<^verbatim>\<open>p.key\<close>: a missing key reads as \<^verbatim>\<open>undefined\<close>, which arithmetic turns into \<^verbatim>\<open>NaN\<close>.\<close>

definition pget :: "AttractorParams \<Rightarrow> string \<Rightarrow> jsnum" where
  "pget p k = (case p k of None \<Rightarrow> NaN | Some v \<Rightarrow> v)"

text \<open>Of an \<^verbatim>\<open>Attractor\<close> the model keeps the fields the engine reads. The display strings
  (name, description, wikipediaUrl, equation) and the metadata for the user interface
  (paramRanges, cameraPosition) are left out.\<close>

record Attractor =
  params :: AttractorParams
  dt :: jsnum
  scale :: jsnum
  step :: "jsnum \<Rightarrow> jsnum \<Rightarrow> jsnum \<Rightarrow> AttractorParams \<Rightarrow> jsnum \<Rightarrow> jsnum \<times> jsnum \<times> jsnum"

text \<open>The common last line of every step function:
  \<^verbatim>\<open>return [x + dx * dt, y + dy * dt, z + dz * dt]\<close>.\<close>

definition euler :: "jsnum \<Rightarrow> jsnum \<Rightarrow> jsnum \<Rightarrow> jsnum \<Rightarrow> jsnum \<Rightarrow> jsnum \<Rightarrow> jsnum
    \<Rightarrow> jsnum \<times> jsnum \<times> jsnum" where
  "euler x y z dx dy dz h = (jadd x (jmul dx h), jadd y (jmul dy h), jadd z (jmul dz h))"

definition lorenz_step :: "jsnum \<Rightarrow> jsnum \<Rightarrow> jsnum \<Rightarrow> AttractorParams \<Rightarrow> jsnum
    \<Rightarrow> jsnum \<times> jsnum \<times> jsnum" where
  "lorenz_step x y z p h =
     (let dx = jmul (pget p ''sigma'') (jsub y x);
          dy = jsub (jmul x (jsub (pget p ''rho'') z)) y;
          dz = jsub (jmul x y) (jmul (pget p ''beta'') z)
      in euler x y z dx dy dz h)"

definition lorenz :: Attractor where
  "lorenz = \<lparr> params = [''sigma'' \<mapsto> Num 10, ''rho'' \<mapsto> Num 28, ''beta'' \<mapsto> jdiv (Num 8) (Num 3)],
              dt = Num (5 / 1000), scale = Num (15 / 10), step = lorenz_step \<rparr>"

definition thomas_step :: "jsnum \<Rightarrow> jsnum \<Rightarrow> jsnum \<Rightarrow> AttractorParams \<Rightarrow> jsnum
    \<Rightarrow> jsnum \<times> jsnum \<times> jsnum" where
  "thomas_step x y z p h =
     (let dx = jsub (Math_sin y) (jmul (pget p ''b'') x);
          dy = jsub (Math_sin z) (jmul (pget p ''b'') y);
          dz = jsub (Math_sin x) (jmul (pget p ''b'') z)
      in euler x y z dx dy dz h)"

definition thomas :: Attractor where
  "thomas = \<lparr> params = [''b'' \<mapsto> Num (208186 / 1000000)],
              dt = Num (4 / 100), scale = Num 8, step = thomas_step \<rparr>"

definition dadras_step :: "jsnum \<Rightarrow> jsnum \<Rightarrow> jsnum \<Rightarrow> AttractorParams \<Rightarrow> jsnum
    \<Rightarrow> jsnum \<times> jsnum \<times> jsnum" where
  "dadras_step x y z p h =
     (let dx = jadd (jsub y (jmul (pget p ''a'') x)) (jmul (jmul (pget p ''b'') y) z);
          dy = jadd (jsub (jmul (pget p ''c'') y) (jmul x z)) z;
          dz = jsub (jmul (jmul (pget p ''d'') x) y) (jmul (pget p ''e'') z)
      in euler x y z dx dy dz h)"

definition dadras :: Attractor where
  "dadras = \<lparr> params = [''a'' \<mapsto> Num 3, ''b'' \<mapsto> Num (27 / 10), ''c'' \<mapsto> Num (17 / 10),
                        ''d'' \<mapsto> Num 2, ''e'' \<mapsto> Num 9],
              dt = Num (4 / 1000), scale = Num 2, step = dadras_step \<rparr>"

definition rossler_step :: "jsnum \<Rightarrow> jsnum \<Rightarrow> jsnum \<Rightarrow> AttractorParams \<Rightarrow> jsnum
    \<Rightarrow> jsnum \<times> jsnum \<times> jsnum" where
  "rossler_step x y z p h =
     (let dx = jsub (jneg y) z;
          dy = jadd x (jmul (pget p ''a'') y);
          dz = jadd (pget p ''b'') (jmul z (jsub x (pget p ''c'')))
      in euler x y z dx dy dz h)"

definition rossler :: Attractor where
  "rossler = \<lparr> params = [''a'' \<mapsto> Num (2 / 10), ''b'' \<mapsto> Num (2 / 10), ''c'' \<mapsto> Num (57 / 10)],
               dt = Num (1 / 100), scale = Num (25 / 10), step = rossler_step \<rparr>"

definition aizawa_step :: "jsnum \<Rightarrow> jsnum \<Rightarrow> jsnum \<Rightarrow> AttractorParams \<Rightarrow> jsnum
    \<Rightarrow> jsnum \<times> jsnum \<times> jsnum" where
  "aizawa_step x y z p h =
     (let dx = jsub (jmul (jsub z (pget p ''b'')) x) (jmul (pget p ''d'') y);
          dy = jadd (jmul (pget p ''d'') x) (jmul (jsub z (pget p ''b'')) y);
          dz = jadd
                 (jsub
                    (jsub (jadd (pget p ''c'') (jmul (pget p ''a'') z))
                          (jdiv (jmul (jmul z z) z) (Num 3)))
                    (jmul (jadd (jmul x x) (jmul y y)) (jadd (Num 1) (jmul (pget p ''e'') z))))
                 (jmul (jmul (jmul (jmul (pget p ''f'') z) x) x) x)
      in euler x y z dx dy dz h)"

definition aizawa :: Attractor where
  "aizawa = \<lparr> params = [''a'' \<mapsto> Num (95 / 100), ''b'' \<mapsto> Num (7 / 10), ''c'' \<mapsto> Num (6 / 10),
                        ''d'' \<mapsto> Num (35 / 10), ''e'' \<mapsto> Num (25 / 100), ''f'' \<mapsto> Num (1 / 10)],
              dt = Num (5 / 1000), scale = Num 10, step = aizawa_step \<rparr>"

definition chen_step :: "jsnum \<Rightarrow> jsnum \<Rightarrow> jsnum \<Rightarrow> AttractorParams \<Rightarrow> jsnum
    \<Rightarrow> jsnum \<times> jsnum \<times> jsnum" where
  "chen_step x y z p h =
     (let dx = jmul (pget p ''a'') (jsub y x);
          dy = jadd (jsub (jmul (jsub (pget p ''c'') (pget p ''a'')) x) (jmul x z))
                    (jmul (pget p ''c'') y);
          dz = jsub (jmul x y) (jmul (pget p ''b'') z)
      in euler x y z dx dy dz h)"

definition chen :: Attractor where
  "chen = \<lparr> params = [''a'' \<mapsto> Num 40, ''b'' \<mapsto> Num 3, ''c'' \<mapsto> Num 28],
            dt = Num (2 / 1000), scale = Num (12 / 10), step = chen_step \<rparr>"

definition halvorsen_step :: "jsnum \<Rightarrow> jsnum \<Rightarrow> jsnum \<Rightarrow> AttractorParams \<Rightarrow> jsnum
    \<Rightarrow> jsnum \<times> jsnum \<times> jsnum" where
  "halvorsen_step x y z p h =
     (let dx = jsub (jsub (jsub (jmul (jneg (pget p ''a'')) x) (jmul (Num 4) y))
                          (jmul (Num 4) z)) (jmul y y);
          dy = jsub (jsub (jsub (jmul (jneg (pget p ''a'')) y) (jmul (Num 4) z))
                          (jmul (Num 4) x)) (jmul z z);
          dz = jsub (jsub (jsub (jmul (jneg (pget p ''a'')) z) (jmul (Num 4) x))
                          (jmul (Num 4) y)) (jmul x x)
      in euler x y z dx dy dz h)"

definition halvorsen :: Attractor where
  "halvorsen = \<lparr> params = [''a'' \<mapsto> Num (189 / 100)],
                 dt = Num (5 / 1000), scale = Num 4, step = halvorsen_step \<rparr>"

definition sprott_step :: "jsnum \<Rightarrow> jsnum \<Rightarrow> jsnum \<Rightarrow> AttractorParams \<Rightarrow> jsnum
    \<Rightarrow> jsnum \<times> jsnum \<times> jsnum" where
  "sprott_step x y z p h =
     (let dx = jadd (jadd y (jmul (jmul (pget p ''a'') x) y)) (jmul x z);
          dy = jadd (jsub (Num 1) (jmul (jmul (pget p ''b'') x) x)) (jmul y z);
          dz = jsub (jsub x (jmul x x)) (jmul y y)
      in euler x y z dx dy dz h)"

definition sprott :: Attractor where
  "sprott = \<lparr> params = [''a'' \<mapsto> Num (207 / 100), ''b'' \<mapsto> Num (179 / 100)],
              dt = Num (2 / 100), scale = Num 5, step = sprott_step \<rparr>"

text \<open>The collection \<^verbatim>\<open>attractors\<close>, an object literal with eight own keys in this order.\<close>

definition attractors :: "(string \<times> Attractor) list" where
  "attractors = [(''lorenz'', lorenz), (''thomas'', thomas), (''dadras'', dadras),
                 (''rossler'', rossler), (''aizawa'', aizawa), (''chen'', chen),
                 (''halvorsen'', halvorsen), (''sprott'', sprott)]"

definition attractorNames :: "string list" where
  "attractorNames = map fst attractors"

section \<open>The trail engine (particleSystem.ts)\<close>

subsection \<open>Collaborators\<close>

text \<open>A \<^verbatim>\<open>THREE.Color\<close> with its components \<^verbatim>\<open>r\<close>, \<^verbatim>\<open>g\<close>, \<^verbatim>\<open>b\<close>, and the library's
  \<^verbatim>\<open>lerpColors(color1, color2, alpha)\<close>, which sets every component to
  \<^verbatim>\<open>color1.c + (color2.c - color1.c) * alpha\<close>.\<close>

datatype Color = Color (red: jsnum) (green: jsnum) (blue: jsnum)

definition lerp :: "jsnum \<Rightarrow> jsnum \<Rightarrow> jsnum \<Rightarrow> jsnum" where
  "lerp a b alpha = jadd a (jmul (jsub b a) alpha)"

definition lerpColors :: "Color \<Rightarrow> Color \<Rightarrow> jsnum \<Rightarrow> Color" where
  "lerpColors color1 color2 alpha =
     Color (lerp (red color1) (red color2) alpha)
           (lerp (green color1) (green color2) alpha)
           (lerp (blue color1) (blue color2) alpha)"

text \<open>\<^verbatim>\<open>Math.random()\<close>: the next draw of the runtime; the number of draws made so far is
  threaded through every operation that samples.\<close>

definition Math_random :: "runtime \<Rightarrow> nat \<Rightarrow> jsnum \<times> nat" where
  "Math_random rs k = (Num (draw rs k), Suc k)"

text \<open>Array indices that are computed with \<^verbatim>\<open>%\<close>: an integer, or \<open>None\<close> for
  \<^verbatim>\<open>NaN\<close>. The remainder takes the sign of the dividend and is \<^verbatim>\<open>NaN\<close> for a zero divisor.\<close>

definition idx_add :: "int option \<Rightarrow> int \<Rightarrow> int option" where
  "idx_add a d = (case a of None \<Rightarrow> None | Some v \<Rightarrow> Some (v + d))"

definition js_rem :: "int option \<Rightarrow> int \<Rightarrow> int option" where
  "js_rem a b = (case a of None \<Rightarrow> None
                 | Some v \<Rightarrow> if b = 0 then None else Some (sgn v * (\<bar>v\<bar> mod \<bar>b\<bar>)))"

text \<open>\<^verbatim>\<open>this.trailPositions[idx]\<close>: the position of the slot in the list, or \<open>None\<close> where
  the access yields \<^verbatim>\<open>undefined\<close>.\<close>

definition slot_index :: "Float32Array list \<Rightarrow> int option \<Rightarrow> nat option" where
  "slot_index tp idx = (case idx of None \<Rightarrow> None
                        | Some s \<Rightarrow> if 0 \<le> s \<and> nat s < length tp then Some (nat s) else None)"

subsection \<open>State\<close>

text \<open>The fields of \<^verbatim>\<open>ParticleSystem\<close>. The typed arrays handed to the geometry's buffer
  attributes are the arrays \<open>positions\<close>, \<open>colors\<close> and \<open>sizes\<close> themselves. Of the
  \<^verbatim>\<open>THREE\<close> geometry and material the model keeps whether \<^verbatim>\<open>dispose()\<close> was called on
  them; their \<^verbatim>\<open>needsUpdate\<close> flags, the shader and the texture are not modelled.\<close>

record ParticleSystem =
  positions :: Float32Array
  colors :: Float32Array
  sizes :: Float32Array
  trailPositions :: "Float32Array list"
  trailIndex :: "int option"
  particleCount :: int
  trailLength :: int
  colorStart :: Color
  colorEnd :: Color
  currentAttractor :: Attractor
  currentParams :: AttractorParams
  geometryDisposed :: bool
  materialDisposed :: bool

subsection \<open>updateBuffers\<close>

definition ub_trailIdx :: "ParticleSystem \<Rightarrow> nat \<Rightarrow> int option" where
  "ub_trailIdx e t = js_rem (idx_add (trailIndex e) (int t)) (trailLength e)"

text \<open>\<^verbatim>\<open>this.trailPositions[trailIdx][j]\<close>. The case \<open>None\<close> is the \<^verbatim>\<open>TypeError\<close> that
  \<open>updateBuffers\<close> below raises before it runs the loop.\<close>

definition ring_read :: "Float32Array list \<Rightarrow> int option \<Rightarrow> nat \<Rightarrow> jsnum" where
  "ring_read tp idx j = (case slot_index tp idx of None \<Rightarrow> NaN | Some s \<Rightarrow> f32_get (tp ! s) j)"

text \<open>The body of the inner loop. It runs only for \<open>0 < trailLength\<close>, where
  \<^verbatim>\<open>(i * this.trailLength + t) * 3\<close> is the natural number written here.\<close>

definition ub_write :: "ParticleSystem \<Rightarrow> nat \<Rightarrow> nat
    \<Rightarrow> Float32Array \<times> Float32Array \<times> Float32Array
    \<Rightarrow> Float32Array \<times> Float32Array \<times> Float32Array" where
  "ub_write e i t = (\<lambda>(ps, cs, ss).
     (let sc = scale (currentAttractor e);
          trailIdx = ub_trailIdx e t;
          bufferIdx = (i * nat (trailLength e) + t) * 3;
          ps1 = f32_set ps bufferIdx (jmul (ring_read (trailPositions e) trailIdx (i * 3)) sc);
          ps2 = f32_set ps1 (bufferIdx + 1)
                  (jmul (ring_read (trailPositions e) trailIdx (i * 3 + 1)) sc);
          ps3 = f32_set ps2 (bufferIdx + 2)
                  (jmul (ring_read (trailPositions e) trailIdx (i * 3 + 2)) sc);
          trailFactor = jdiv (Num (real t)) (Num (real_of_int (trailLength e)));
          color = lerpColors (colorEnd e) (colorStart e) trailFactor;
          cs1 = f32_set cs bufferIdx (red color);
          cs2 = f32_set cs1 (bufferIdx + 1) (green color);
          cs3 = f32_set cs2 (bufferIdx + 2) (blue color);
          ss1 = f32_set ss (i * nat (trailLength e) + t)
                  (jmul (Num (25 / 10)) (jsub (Num 1) (jmul trailFactor (Num (7 / 10)))))
      in (ps3, cs3, ss1)))"

definition updateBuffers_loop :: "ParticleSystem \<Rightarrow> ParticleSystem" where
  "updateBuffers_loop e =
     (let (ps, cs, ss) =
            fold (\<lambda>i. fold (ub_write e i) [0..<nat (trailLength e)])
                 [0..<nat (particleCount e)] (positions e, colors e, sizes e)
      in e\<lparr>positions := ps, colors := cs, sizes := ss\<rparr>)"

text \<open>The loop indexes \<^verbatim>\<open>this.trailPositions[trailIdx]\<close> for every \<open>t\<close> as soon as there is
  one particle; a missing slot is a \<^verbatim>\<open>TypeError\<close>.\<close>

definition updateBuffers :: "ParticleSystem \<Rightarrow> error + ParticleSystem" where
  "updateBuffers e =
     (if 0 < particleCount e \<and>
         list_ex (\<lambda>t. slot_index (trailPositions e) (ub_trailIdx e t) = None)
                 [0..<nat (trailLength e)]
      then Inl TypeError
      else Inr (updateBuffers_loop e))"

subsection \<open>initializeParticles\<close>

definition ip_write :: "nat \<Rightarrow> jsnum \<Rightarrow> jsnum \<Rightarrow> jsnum \<Rightarrow> nat
    \<Rightarrow> Float32Array list \<Rightarrow> Float32Array list" where
  "ip_write i x y z t tp =
     tp[t := f32_set (f32_set (f32_set (tp ! t) (i * 3) x) (i * 3 + 1) y) (i * 3 + 2) z]"

text \<open>\<^verbatim>\<open>(Math.random() - 0.5) * 2 * scale\<close>\<close>

definition random_coord :: "jsnum \<Rightarrow> jsnum \<Rightarrow> jsnum" where
  "random_coord u sc = jmul (jmul (jsub u (Num (5 / 10))) (Num 2)) sc"

definition ip_particle :: "runtime \<Rightarrow> jsnum \<Rightarrow> nat \<Rightarrow> nat
    \<Rightarrow> Float32Array list \<times> nat \<Rightarrow> Float32Array list \<times> nat" where
  "ip_particle rs sc T i = (\<lambda>(tp, k).
     (let (u1, k1) = Math_random rs k;
          x = random_coord u1 sc;
          (u2, k2) = Math_random rs k1;
          y = random_coord u2 sc;
          (u3, k3) = Math_random rs k2;
          z = jadd (random_coord u3 sc) (Num 25)
      in (fold (ip_write i x y z) [0..<T] tp, k3)))"

definition initializeParticles_loop :: "runtime \<Rightarrow> ParticleSystem \<Rightarrow> nat
    \<Rightarrow> Float32Array list \<times> nat" where
  "initializeParticles_loop rs e k =
     fold (ip_particle rs (scale (currentAttractor e)) (nat (trailLength e)))
          [0..<nat (particleCount e)] (trailPositions e, k)"

definition initializeParticles :: "runtime \<Rightarrow> ParticleSystem \<times> nat
    \<Rightarrow> error + ParticleSystem \<times> nat" where
  "initializeParticles rs = (\<lambda>(e, k).
     if 0 < particleCount e \<and> length (trailPositions e) < nat (trailLength e)
     then Inl TypeError
     else (let (tp, k') = initializeParticles_loop rs e k
           in case updateBuffers (e\<lparr>trailPositions := tp\<rparr>) of
                Inl err \<Rightarrow> Inl err
              | Inr e' \<Rightarrow> Inr (e', k')))"

subsection \<open>The constructor\<close>

fun new_trails :: "runtime \<Rightarrow> nat \<Rightarrow> int \<Rightarrow> error + Float32Array list" where
  "new_trails rs 0 len = Inr []"
| "new_trails rs (Suc m) len =
     (case new_Float32Array rs len of
        Inl err \<Rightarrow> Inl err
      | Inr a \<Rightarrow> (case new_trails rs m len of Inl err \<Rightarrow> Inl err | Inr tp \<Rightarrow> Inr (a # tp)))"

text \<open>\<^verbatim>\<open>new ParticleSystem(attractor, {particleCount, trailLength, colorStart, colorEnd})\<close>
  for integer sizes. The texture and the \<^verbatim>\<open>THREE\<close> objects are taken to be created
  without failure.\<close>

definition construct :: "runtime \<Rightarrow> Attractor \<Rightarrow> int \<Rightarrow> int \<Rightarrow> Color \<Rightarrow> Color \<Rightarrow> nat
    \<Rightarrow> error + ParticleSystem \<times> nat" where
  "construct rs attractor pcount tlen cstart cend k =
     (let totalPoints = pcount * tlen in
      case new_Float32Array rs (totalPoints * 3) of Inl err \<Rightarrow> Inl err | Inr ps \<Rightarrow>
      case new_Float32Array rs (totalPoints * 3) of Inl err \<Rightarrow> Inl err | Inr cs \<Rightarrow>
      case new_Float32Array rs totalPoints of Inl err \<Rightarrow> Inl err | Inr ss \<Rightarrow>
      case new_trails rs (nat tlen) (pcount * 3) of Inl err \<Rightarrow> Inl err | Inr tp \<Rightarrow>
      initializeParticles rs
        (\<lparr> positions = ps, colors = cs, sizes = ss, trailPositions = tp,
            trailIndex = Some 0, particleCount = pcount, trailLength = tlen,
            colorStart = cstart, colorEnd = cend,
            currentAttractor = attractor, currentParams = params attractor,
            geometryDisposed = False, materialDisposed = False \<rparr>, k))"

subsection \<open>update and the setters\<close>

definition update_particle :: "runtime \<Rightarrow> Attractor \<Rightarrow> AttractorParams \<Rightarrow> jsnum
    \<Rightarrow> nat \<Rightarrow> nat \<Rightarrow> nat \<Rightarrow> Float32Array list \<times> nat \<Rightarrow> Float32Array list \<times> nat" where
  "update_particle rs f p h cur nxt i = (\<lambda>(tp, k).
     (let x = f32_get (tp ! cur) (i * 3);
          y = f32_get (tp ! cur) (i * 3 + 1);
          z = f32_get (tp ! cur) (i * 3 + 2);
          (nx, ny, nz) = step f x y z p h
      in if \<not> isFinite nx \<or> \<not> isFinite ny \<or> \<not> isFinite nz
         then (let sc = scale f;
                   (u1, k1) = Math_random rs k;
                   (u2, k2) = Math_random rs k1;
                   (u3, k3) = Math_random rs k2
               in (tp[nxt := f32_set (f32_set (f32_set (tp ! nxt) (i * 3) (random_coord u1 sc))
                                        (i * 3 + 1) (random_coord u2 sc))
                               (i * 3 + 2) (jadd (random_coord u3 sc) (Num 25))], k3))
         else (tp[nxt := f32_set (f32_set (f32_set (tp ! nxt) (i * 3) nx) (i * 3 + 1) ny)
                           (i * 3 + 2) nz], k)))"

definition update_loop :: "runtime \<Rightarrow> ParticleSystem \<Rightarrow> jsnum \<Rightarrow> nat \<Rightarrow> nat \<Rightarrow> nat
    \<Rightarrow> Float32Array list \<times> nat" where
  "update_loop rs e h cur nxt k =
     fold (update_particle rs (currentAttractor e) (currentParams e) h cur nxt)
          [0..<nat (particleCount e)] (trailPositions e, k)"

text \<open>\<^verbatim>\<open>update(speed)\<close>; the caller passes \<open>Num 1\<close> for the default. With at least one
  particle the loop indexes \<^verbatim>\<open>currentTrail\<close> and \<^verbatim>\<open>nextTrail\<close>, a \<^verbatim>\<open>TypeError\<close> when
  either is \<^verbatim>\<open>undefined\<close>. The two are positions in the one list of slots, so that
  a ring of a single slot is read and written in place as in the source.\<close>

definition update :: "runtime \<Rightarrow> jsnum \<Rightarrow> ParticleSystem \<times> nat
    \<Rightarrow> error + ParticleSystem \<times> nat" where
  "update rs speed = (\<lambda>(e, k).
     (let h = jmul (dt (currentAttractor e)) speed;
          nextIndex = js_rem (idx_add (idx_add (trailIndex e) (trailLength e)) (- 1))
                             (trailLength e)
      in if 0 < particleCount e
         then (case (slot_index (trailPositions e) (trailIndex e),
                     slot_index (trailPositions e) nextIndex) of
                 (Some cur, Some nxt) \<Rightarrow>
                   (let (tp, k') = update_loop rs e h cur nxt k
                    in case updateBuffers (e\<lparr>trailPositions := tp, trailIndex := nextIndex\<rparr>) of
                         Inl err \<Rightarrow> Inl err
                       | Inr e' \<Rightarrow> Inr (e', k'))
               | _ \<Rightarrow> Inl TypeError)
         else (case updateBuffers (e\<lparr>trailIndex := nextIndex\<rparr>) of
                 Inl err \<Rightarrow> Inl err
               | Inr e' \<Rightarrow> Inr (e', k))))"

definition setAttractor :: "runtime \<Rightarrow> Attractor \<Rightarrow> ParticleSystem \<times> nat
    \<Rightarrow> error + ParticleSystem \<times> nat" where
  "setAttractor rs attractor = (\<lambda>(e, k).
     initializeParticles rs
       (e\<lparr>currentAttractor := attractor, currentParams := params attractor\<rparr>, k))"

definition setParams :: "AttractorParams \<Rightarrow> ParticleSystem \<Rightarrow> ParticleSystem" where
  "setParams p e = e\<lparr>currentParams := p\<rparr>"

definition setColors :: "Color \<Rightarrow> Color \<Rightarrow> ParticleSystem \<Rightarrow> ParticleSystem" where
  "setColors start end' e = e\<lparr>colorStart := start, colorEnd := end'\<rparr>"

definition getParticleCount :: "ParticleSystem \<Rightarrow> int" where
  "getParticleCount e = particleCount e * trailLength e"

definition dispose :: "ParticleSystem \<Rightarrow> ParticleSystem" where
  "dispose e = e\<lparr>geometryDisposed := True, materialDisposed := True\<rparr>"

section \<open>The catalog table of the specification\<close>




text \<open>The real value of a finite number, and numbers of magnitude at most \<open>B\<close>.\<close>

fun num_val :: "jsnum \<Rightarrow> real" where
  "num_val (Num a) = a"
| "num_val _ = 0"





section \<open>Catalog lookup\<close>

text \<open>The source has no lookup function: its callers read \<^verbatim>\<open>attractors[identifier]\<close>. A
  property read on an object literal never raises. It yields the own property, or what
  the object inherits from \<^verbatim>\<open>Object.prototype\<close> under that name, or \<^verbatim>\<open>undefined\<close>.\<close>

datatype 'a property = Own 'a | Inherited | Undefined

definition Object_prototype_keys :: "string list" where
  "Object_prototype_keys =
     [''constructor'', ''hasOwnProperty'', ''isPrototypeOf'', ''propertyIsEnumerable'',
      ''toLocaleString'', ''toString'', ''valueOf'', ''__proto__'',
      ''__defineGetter__'', ''__defineSetter__'', ''__lookupGetter__'', ''__lookupSetter__'']"

definition attractors_get :: "string \<Rightarrow> error + Attractor property" where
  "attractors_get identifier =
     Inr (case map_of attractors identifier of
            Some f \<Rightarrow> Own f
          | None \<Rightarrow> if identifier \<in> set Object_prototype_keys then Inherited else Undefined)"

section \<open>Well-formed and reachable engine states\<close>

text \<open>The shape every constructed engine with at least one trail slot has and keeps: the
  buffers have the lengths they were allocated with, the ring has \<open>trailLength\<close> slots of
  three numbers per particle, and the ring index points into the ring.\<close>

definition wf :: "ParticleSystem \<Rightarrow> bool" where
  "wf e \<longleftrightarrow>
     0 \<le> particleCount e \<and> 1 \<le> trailLength e
     \<and> length (positions e) = nat (particleCount e) * nat (trailLength e) * 3
     \<and> length (colors e) = nat (particleCount e) * nat (trailLength e) * 3
     \<and> length (sizes e) = nat (particleCount e) * nat (trailLength e)
     \<and> map length (trailPositions e)
         = replicate (nat (trailLength e)) (nat (particleCount e) * 3)
     \<and> (\<exists>i. trailIndex e = Some i \<and> 0 \<le> i \<and> i < trailLength e)"

text \<open>The states a driver can bring about: construction, then any sequence of calls that
  return normally. The second component counts the draws of \<^verbatim>\<open>Math.random\<close> so far.\<close>

inductive reachable :: "runtime \<Rightarrow> ParticleSystem \<times> nat \<Rightarrow> bool" for rs where
  r_construct: "construct rs attractor pcount tlen cstart cend k = Inr s \<Longrightarrow> reachable rs s"
| r_update: "reachable rs s \<Longrightarrow> update rs speed s = Inr s' \<Longrightarrow> reachable rs s'"
| r_setAttractor: "reachable rs s \<Longrightarrow> setAttractor rs attractor s = Inr s' \<Longrightarrow> reachable rs s'"
| r_setParams: "reachable rs (e, k) \<Longrightarrow> reachable rs (setParams p e, k)"
| r_setColors: "reachable rs (e, k) \<Longrightarrow> reachable rs (setColors start end' e, k)"
| r_dispose: "reachable rs (e, k) \<Longrightarrow> reachable rs (dispose e, k)"

text \<open>\<open>n\<close> consecutive calls of \<^verbatim>\<open>update\<close>, stopping at the first error.\<close>

fun updates :: "runtime \<Rightarrow> jsnum list \<Rightarrow> ParticleSystem \<times> nat
    \<Rightarrow> error + ParticleSystem \<times> nat" where
  "updates rs [] s = Inr s"
| "updates rs (speed # speeds) s =
     (case update rs speed s of Inl err \<Rightarrow> Inl err | Inr s' \<Rightarrow> updates rs speeds s')"

section \<open>Concrete inputs\<close>

text \<open>A runtime whose every draw is \<open>v\<close> and which allocates typed arrays of up to
  \<open>2^32 - 1\<close> elements, and two colours.\<close>

definition rs_const :: "real \<Rightarrow> runtime" where
  "rs_const v = \<lparr> draw = (\<lambda>k. v), max_length = 4294967295 \<rparr>"

definition white :: Color where
  "white = Color (Num 1) (Num 1) (Num 1)"

definition black :: Color where
  "black = Color (Num 0) (Num 0) (Num 0)"

text \<open>An engine of one particle and two trail slots on the lorenz field as the constructor
  leaves it when every draw is \<open>1/2\<close>, and the same engine after one update at speed 1.\<close>

definition engine_1_2 :: ParticleSystem where
  "engine_1_2 =
     \<lparr> positions = [Num 0, Num 0, Num (75 / 2), Num 0, Num 0, Num (75 / 2)],
       colors = [Num 0, Num 0, Num 0, Num (1 / 2), Num (1 / 2), Num (1 / 2)],
       sizes = [Num (5 / 2), Num (13 / 8)],
       trailPositions = [[Num 0, Num 0, Num 25], [Num 0, Num 0, Num 25]],
       trailIndex = Some 0, particleCount = 1, trailLength = 2,
       colorStart = white, colorEnd = black,
       currentAttractor = lorenz, currentParams = params lorenz,
       geometryDisposed = False, materialDisposed = False \<rparr>"

definition engine_1_2_updated :: ParticleSystem where
  "engine_1_2_updated =
     \<lparr> positions = [Num 0, Num 0, Num 37, Num 0, Num 0, Num (75 / 2)],
       colors = [Num 0, Num 0, Num 0, Num (1 / 2), Num (1 / 2), Num (1 / 2)],
       sizes = [Num (5 / 2), Num (13 / 8)],
       trailPositions = [[Num 0, Num 0, Num 25], [Num 0, Num 0, Num (74 / 3)]],
       trailIndex = Some 1, particleCount = 1, trailLength = 2,
       colorStart = white, colorEnd = black,
       currentAttractor = lorenz, currentParams = params lorenz,
       geometryDisposed = False, materialDisposed = False \<rparr>"

text \<open>Parameters of the lorenz field with a large \<open>rho\<close>.\<close>

definition big_rho :: AttractorParams where
  "big_rho = [''sigma'' \<mapsto> Num 10, ''rho'' \<mapsto> Num (2 ^ 200), ''beta'' \<mapsto> Num (8 / 3)]"

text \<open>An engine of one particle and one trail slot on the lorenz field as the constructor
  leaves it when every draw is \<open>3/4\<close>, and the same engine after \<^verbatim>\<open>setParams\<close> with
  \<open>big_rho\<close> and one update at speed 1.\<close>

definition engine_1_1 :: ParticleSystem where
  "engine_1_1 =
     \<lparr> positions = [Num (9 / 8), Num (9 / 8), Num (309 / 8)],
       colors = [Num 0, Num 0, Num 0],
       sizes = [Num (5 / 2)],
       trailPositions = [[Num (3 / 4), Num (3 / 4), Num (103 / 4)]],
       trailIndex = Some 0, particleCount = 1, trailLength = 1,
       colorStart = white, colorEnd = black,
       currentAttractor = lorenz, currentParams = params lorenz,
       geometryDisposed = False, materialDisposed = False \<rparr>"

definition engine_1_1_diverged :: ParticleSystem where
  "engine_1_1_diverged =
     \<lparr> positions = [Num (9 / 8), PosInf, Num (243931 / 6400)],
       colors = [Num 0, Num 0, Num 0],
       sizes = [Num (5 / 2)],
       trailPositions = [[Num (3 / 4), PosInf, Num (243931 / 9600)]],
       trailIndex = Some 0, particleCount = 1, trailLength = 1,
       colorStart = white, colorEnd = black,
       currentAttractor = lorenz, currentParams = big_rho,
       geometryDisposed = False, materialDisposed = False \<rparr>"

text \<open>The engines without a trail slot, which the constructor also builds: the ring is empty
  and nothing is ever written to the three arrays.\<close>

definition degenerate :: "ParticleSystem \<Rightarrow> bool" where
  "degenerate e \<longleftrightarrow>
     trailLength e \<le> 0 \<and> 0 \<le> particleCount e * trailLength e
     \<and> trailPositions e = []
     \<and> positions e = replicate (nat (particleCount e * trailLength e * 3)) (Num 0)
     \<and> colors e = replicate (nat (particleCount e * trailLength e * 3)) (Num 0)
     \<and> sizes e = replicate (nat (particleCount e * trailLength e)) (Num 0)"

text \<open>The engine that the constructor builds for no particle and no trail slot.\<close>

definition engine_0_0 :: ParticleSystem where
  "engine_0_0 =
     \<lparr> positions = [], colors = [], sizes = [], trailPositions = [],
       trailIndex = Some 0, particleCount = 0, trailLength = 0,
       colorStart = white, colorEnd = black,
       currentAttractor = lorenz, currentParams = params lorenz,
       geometryDisposed = False, materialDisposed = False \<rparr>"

section \<open>What updateBuffers writes\<close>

text \<open>The three values that the body of the loop in \<^verbatim>\<open>updateBuffers\<close> stores for particle
  \<open>i\<close> and trail position \<open>t\<close>, named for the statements below: coordinate \<open>c\<close> of the
  scaled position, component \<open>c\<close> of the blended colour, and the point size.\<close>

definition trailFactor :: "ParticleSystem \<Rightarrow> nat \<Rightarrow> jsnum" where
  "trailFactor e t = jdiv (Num (real t)) (Num (real_of_int (trailLength e)))"

definition pos_value :: "ParticleSystem \<Rightarrow> nat \<Rightarrow> nat \<Rightarrow> nat \<Rightarrow> jsnum" where
  "pos_value e i t c =
     f32 (jmul (ring_read (trailPositions e) (ub_trailIdx e t) (i * 3 + c))
               (scale (currentAttractor e)))"

definition component :: "nat \<Rightarrow> Color \<Rightarrow> jsnum" where
  "component c col = (if c = 0 then red col else if c = 1 then green col else blue col)"

definition color_value :: "ParticleSystem \<Rightarrow> nat \<Rightarrow> nat \<Rightarrow> jsnum" where
  "color_value e t c =
     f32 (component c (lerpColors (colorEnd e) (colorStart e) (trailFactor e t)))"

definition size_value :: "ParticleSystem \<Rightarrow> nat \<Rightarrow> jsnum" where
  "size_value e t =
     f32 (jmul (Num (25 / 10)) (jsub (Num 1) (jmul (trailFactor e t) (Num (7 / 10)))))"

section \<open>What the particle loops store\<close>

text \<open>The position that \<^verbatim>\<open>initializeParticles\<close> and the recovery branch of \<^verbatim>\<open>update\<close>
  sample with three draws, the first of them draw number \<open>k\<close>.\<close>

definition sample_position :: "runtime \<Rightarrow> jsnum \<Rightarrow> nat \<Rightarrow> jsnum \<times> jsnum \<times> jsnum" where
  "sample_position rs sc k =
     (random_coord (Num (draw rs k)) sc,
      random_coord (Num (draw rs (k + 1))) sc,
      jadd (random_coord (Num (draw rs (k + 2))) sc) (Num 25))"

definition coord :: "nat \<Rightarrow> jsnum \<times> jsnum \<times> jsnum \<Rightarrow> jsnum" where
  "coord c v = (if c = 0 then fst v else if c = 1 then fst (snd v) else snd (snd v))"

definition all_finite :: "jsnum \<times> jsnum \<times> jsnum \<Rightarrow> bool" where
  "all_finite v \<longleftrightarrow> isFinite (fst v) \<and> isFinite (fst (snd v)) \<and> isFinite (snd (snd v))"

text \<open>The three stores of a position for particle \<open>i\<close> into one ring slot.\<close>

definition store3 :: "Float32Array \<Rightarrow> nat \<Rightarrow> jsnum \<times> jsnum \<times> jsnum \<Rightarrow> Float32Array" where
  "store3 r i v =
     f32_set (f32_set (f32_set r (i * 3) (fst v)) (i * 3 + 1) (fst (snd v)))
       (i * 3 + 2) (snd (snd v))"

text \<open>What one iteration of the loop in \<^verbatim>\<open>update\<close> decides to store for particle \<open>i\<close>,
  reading the slot \<open>row\<close> with \<open>k\<close> draws made so far, and the number of draws made after
  it; and the number of draws made before particle \<open>i\<close> is reached.\<close>

definition particle_next :: "runtime \<Rightarrow> Attractor \<Rightarrow> AttractorParams \<Rightarrow> jsnum
    \<Rightarrow> Float32Array \<Rightarrow> nat \<Rightarrow> nat \<Rightarrow> (jsnum \<times> jsnum \<times> jsnum) \<times> nat" where
  "particle_next rs f p h row i k =
     (let v = step f (f32_get row (i * 3)) (f32_get row (i * 3 + 1)) (f32_get row (i * 3 + 2))
                p h
      in if all_finite v then (v, k) else (sample_position rs (scale f) k, k + 3))"

primrec draws_before :: "runtime \<Rightarrow> Attractor \<Rightarrow> AttractorParams \<Rightarrow> jsnum
    \<Rightarrow> Float32Array \<Rightarrow> nat \<Rightarrow> nat \<Rightarrow> nat" where
  "draws_before rs f p h row k 0 = k"
| "draws_before rs f p h row k (Suc i) =
     snd (particle_next rs f p h row i (draws_before rs f p h row k i))"

definition stored_next :: "runtime \<Rightarrow> Attractor \<Rightarrow> AttractorParams \<Rightarrow> jsnum
    \<Rightarrow> Float32Array \<Rightarrow> nat \<Rightarrow> nat \<Rightarrow> jsnum \<times> jsnum \<times> jsnum" where
  "stored_next rs f p h row k i =
     fst (particle_next rs f p h row i (draws_before rs f p h row k i))"

text \<open>Colours as \<^verbatim>\<open>THREE.Color\<close> parses them from a hex string: components between 0 and 1.\<close>

definition unit_color :: "Color \<Rightarrow> bool" where
  "unit_color col \<longleftrightarrow> (\<forall>c. \<exists>r. component c col = Num r \<and> 0 \<le> r \<and> r \<le> 1)"

section \<open>Arithmetic of finite numbers\<close>

























































section \<open>Shapes are kept\<close>

lemma f32_set_length [simp]: "length (f32_set a j v) = length a"
  by (simp add: f32_set_def)

lemma map_length_update_same:
  assumes "length a = length (tp ! t)"
  shows "map length (tp[t := a]) = map length tp"
proof (cases "t < length tp")
  case True
  then show ?thesis
    using assms by (simp add: map_update list_update_same_conv)
next
  case False
  then have "tp[t := a] = tp" by (simp add: list_update_beyond)
  then show ?thesis by (simp only:)
qed

lemma ip_write_shape: "map length (ip_write i x y z t tp) = map length tp"
  unfolding ip_write_def by (rule map_length_update_same) simp

lemma fold_ip_write_shape: "map length (fold (ip_write i x y z) ts tp) = map length tp"
  by (induction ts arbitrary: tp) (simp_all add: ip_write_shape)

lemma ip_particle_shape: "map length (fst (ip_particle rs sc T i s)) = map length (fst s)"
  by (cases s) (simp add: ip_particle_def Math_random_def fold_ip_write_shape)

lemma ip_particle_draws: "snd (ip_particle rs sc T i s) = snd s + 3"
  by (cases s) (simp add: ip_particle_def Math_random_def)

lemma fold_ip_particle_shape:
  "map length (fst (fold (ip_particle rs sc T) is s)) = map length (fst s)"
  by (induction "is" arbitrary: s) (simp_all add: ip_particle_shape)

lemma initializeParticles_loop_shape:
  "map length (fst (initializeParticles_loop rs e k)) = map length (trailPositions e)"
  by (simp add: initializeParticles_loop_def fold_ip_particle_shape)

lemma update_particle_shape:
  "map length (fst (update_particle rs f p h cur nxt i s)) = map length (fst s)"
  by (cases s)
     (auto simp: update_particle_def Math_random_def Let_def split: prod.splits
           intro!: map_length_update_same)

lemma fold_update_particle_shape:
  "map length (fst (fold (update_particle rs f p h cur nxt) is s)) = map length (fst s)"
  by (induction "is" arbitrary: s) (simp_all add: update_particle_shape)

lemma ub_write_lengths:
  "ub_write e i t (ps, cs, ss) = (ps', cs', ss')
   \<Longrightarrow> length ps' = length ps \<and> length cs' = length cs \<and> length ss' = length ss"
  by (auto simp: ub_write_def Let_def)

lemma fold_ub_write_lengths:
  "fold (ub_write e i) ts (ps, cs, ss) = (ps', cs', ss')
   \<Longrightarrow> length ps' = length ps \<and> length cs' = length cs \<and> length ss' = length ss"
proof (induction ts arbitrary: ps cs ss)
  case Nil
  then show ?case by simp
next
  case (Cons t ts)
  obtain ps1 cs1 ss1 where w: "ub_write e i t (ps, cs, ss) = (ps1, cs1, ss1)"
    by (cases "ub_write e i t (ps, cs, ss)") auto
  with Cons.prems have "fold (ub_write e i) ts (ps1, cs1, ss1) = (ps', cs', ss')" by simp
  from Cons.IH [OF this] ub_write_lengths [OF w] show ?case by simp
qed

lemma fold_fold_ub_write_lengths:
  "fold (\<lambda>i. fold (ub_write e i) ts) is (ps, cs, ss) = (ps', cs', ss')
   \<Longrightarrow> length ps' = length ps \<and> length cs' = length cs \<and> length ss' = length ss"
proof (induction "is" arbitrary: ps cs ss)
  case Nil
  then show ?case by simp
next
  case (Cons i "is")
  obtain ps1 cs1 ss1 where w: "fold (ub_write e i) ts (ps, cs, ss) = (ps1, cs1, ss1)"
    by (cases "fold (ub_write e i) ts (ps, cs, ss)") auto
  with Cons.prems
  have "fold (\<lambda>i. fold (ub_write e i) ts) is (ps1, cs1, ss1) = (ps', cs', ss')" by simp
  from Cons.IH [OF this] fold_ub_write_lengths [OF w] show ?case by simp
qed

lemma updateBuffers_loop_fields:
  "trailPositions (updateBuffers_loop e) = trailPositions e"
  "trailIndex (updateBuffers_loop e) = trailIndex e"
  "particleCount (updateBuffers_loop e) = particleCount e"
  "trailLength (updateBuffers_loop e) = trailLength e"
  "colorStart (updateBuffers_loop e) = colorStart e"
  "colorEnd (updateBuffers_loop e) = colorEnd e"
  "currentAttractor (updateBuffers_loop e) = currentAttractor e"
  "currentParams (updateBuffers_loop e) = currentParams e"
  "geometryDisposed (updateBuffers_loop e) = geometryDisposed e"
  "materialDisposed (updateBuffers_loop e) = materialDisposed e"
  by (simp_all add: updateBuffers_loop_def split: prod.splits)

lemma updateBuffers_loop_lengths:
  "length (positions (updateBuffers_loop e)) = length (positions e)"
  "length (colors (updateBuffers_loop e)) = length (colors e)"
  "length (sizes (updateBuffers_loop e)) = length (sizes e)"
  by (auto simp: updateBuffers_loop_def split: prod.splits dest: fold_fold_ub_write_lengths)

text \<open>On non-negative operands the remainder is the one of the integers.\<close>

lemma js_rem_nonneg: "0 \<le> a \<Longrightarrow> 0 < b \<Longrightarrow> js_rem (Some a) b = Some (a mod b)"
  by (cases "a = 0") (simp_all add: js_rem_def)

lemma slot_index_in_range:
  "0 \<le> s \<Longrightarrow> nat s < length tp \<Longrightarrow> slot_index tp (Some s) = Some (nat s)"
  by (simp add: slot_index_def)

text \<open>With the ring index inside a ring of the right length, no slot is missing.\<close>

lemma ub_trailIdx_wf:
  assumes "trailIndex e = Some i" "0 \<le> i" "0 < trailLength e"
  shows "ub_trailIdx e t = Some ((i + int t) mod trailLength e)"
  using assms by (simp add: ub_trailIdx_def idx_add_def js_rem_nonneg)

lemma ub_slot_defined:
  assumes "trailIndex e = Some i" "0 \<le> i" "0 < trailLength e"
    and "length (trailPositions e) = nat (trailLength e)"
  shows "slot_index (trailPositions e) (ub_trailIdx e t)
           = Some (nat ((i + int t) mod trailLength e))"
proof -
  have "0 \<le> (i + int t) mod trailLength e" "(i + int t) mod trailLength e < trailLength e"
    using assms(3) by simp_all
  then show ?thesis
    using assms by (simp add: ub_trailIdx_wf slot_index_def)
qed

lemma updateBuffers_ok:
  assumes "trailIndex e = Some i" "0 \<le> i" "0 < trailLength e"
    and "length (trailPositions e) = nat (trailLength e)"
  shows "updateBuffers e = Inr (updateBuffers_loop e)"
  using assms by (simp add: updateBuffers_def list_ex_iff ub_slot_defined)

lemma wf_updateBuffers_loop:
  assumes "wf e"
  shows "wf (updateBuffers_loop e)"
  using assms by (simp add: wf_def updateBuffers_loop_fields updateBuffers_loop_lengths)

lemma wf_ring_length: "wf e \<Longrightarrow> length (trailPositions e) = nat (trailLength e)"
  by (auto simp: wf_def dest: arg_cong [where f = length])

lemma wf_updateBuffers: "wf e \<Longrightarrow> updateBuffers e = Inr (updateBuffers_loop e)"
  by (auto simp: wf_def intro!: updateBuffers_ok dest: arg_cong [where f = length])

section \<open>Well-formed states stay well-formed and no call fails on them\<close>

lemma update_loop_shape:
  "map length (fst (update_loop rs e h cur nxt k)) = map length (trailPositions e)"
  by (simp add: update_loop_def fold_update_particle_shape)

lemma wf_set_ring:
  assumes "wf e" "map length tp = map length (trailPositions e)"
    "0 \<le> j" "j < trailLength e"
  shows "wf (e\<lparr>trailPositions := tp, trailIndex := Some j\<rparr>)"
  using assms by (simp add: wf_def)

lemma update_wf_eq:
  fixes rs :: runtime and speed :: jsnum and k :: nat
  assumes wf: "wf e" and i: "trailIndex e = Some i"
  defines "nx \<equiv> (i + trailLength e - 1) mod trailLength e"
  defines "L \<equiv> update_loop rs e (jmul (dt (currentAttractor e)) speed) (nat i) (nat nx) k"
  shows "update rs speed (e, k)
           = Inr (updateBuffers_loop (e\<lparr>trailPositions := fst L, trailIndex := Some nx\<rparr>), snd L)"
proof -
  from wf i have T: "1 \<le> trailLength e" and n: "0 \<le> particleCount e"
    and i0: "0 \<le> i" and iT: "i < trailLength e"
    and len: "length (trailPositions e) = nat (trailLength e)"
    by (auto simp: wf_def dest: arg_cong [where f = length])
  have nx: "0 \<le> nx" "nx < trailLength e"
    using T by (simp_all add: nx_def)
  have nextI: "js_rem (idx_add (idx_add (trailIndex e) (trailLength e)) (- 1)) (trailLength e)
                = Some nx"
    using T i0 by (simp add: i idx_add_def js_rem_nonneg nx_def)
  have cur: "slot_index (trailPositions e) (trailIndex e) = Some (nat i)"
    using i0 iT len by (simp add: i slot_index_def)
  have nxt: "slot_index (trailPositions e) (Some nx) = Some (nat nx)"
    using nx len by (simp add: slot_index_def)
  have wf': "wf (e\<lparr>trailPositions := fst L, trailIndex := Some nx\<rparr>)"
    using wf nx by (intro wf_set_ring) (simp_all add: L_def update_loop_shape)
  have ub: "updateBuffers (e\<lparr>trailPositions := fst L, trailIndex := Some nx\<rparr>)
              = Inr (updateBuffers_loop (e\<lparr>trailPositions := fst L, trailIndex := Some nx\<rparr>))"
    by (rule wf_updateBuffers [OF wf'])
  show ?thesis
  proof (cases "0 < particleCount e")
    case True
    then show ?thesis
      using ub by (simp add: update_def nextI cur nxt L_def [symmetric] split_beta)
  next
    case False
    with n have "particleCount e = 0" by simp
    then have "L = (trailPositions e, k)" by (simp add: L_def update_loop_def)
    then show ?thesis
      using ub False by (simp add: update_def nextI)
  qed
qed

lemma update_wf:
  assumes "wf e" "trailIndex e = Some i"
  shows "\<exists>e' k'. update rs speed (e, k) = Inr (e', k') \<and> wf e'
           \<and> trailIndex e' = Some ((i + trailLength e - 1) mod trailLength e)
           \<and> trailLength e' = trailLength e \<and> particleCount e' = particleCount e"
proof -
  from assms have T: "1 \<le> trailLength e" by (simp add: wf_def)
  have "wf (e\<lparr>trailPositions :=
                 fst (update_loop rs e (jmul (dt (currentAttractor e)) speed) (nat i)
                        (nat ((i + trailLength e - 1) mod trailLength e)) k),
              trailIndex := Some ((i + trailLength e - 1) mod trailLength e)\<rparr>)"
    using assms(1) T by (intro wf_set_ring) (simp_all add: update_loop_shape)
  then show ?thesis
    by (simp add: update_wf_eq [OF assms] wf_updateBuffers_loop updateBuffers_loop_fields)
qed

lemma initializeParticles_wf_eq:
  fixes rs :: runtime and k :: nat
  assumes "wf e"
  defines "L \<equiv> initializeParticles_loop rs e k"
  shows "initializeParticles rs (e, k)
           = Inr (updateBuffers_loop (e\<lparr>trailPositions := fst L\<rparr>), snd L)"
    and "wf (updateBuffers_loop (e\<lparr>trailPositions := fst L\<rparr>))"
proof -
  have len: "length (trailPositions e) = nat (trailLength e)"
    by (rule wf_ring_length [OF assms(1)])
  have wf': "wf (e\<lparr>trailPositions := fst L\<rparr>)"
    using assms(1) by (simp add: wf_def L_def initializeParticles_loop_shape)
  then show "wf (updateBuffers_loop (e\<lparr>trailPositions := fst L\<rparr>))"
    by (rule wf_updateBuffers_loop)
  show "initializeParticles rs (e, k)
           = Inr (updateBuffers_loop (e\<lparr>trailPositions := fst L\<rparr>), snd L)"
    using len wf_updateBuffers [OF wf']
    by (simp add: initializeParticles_def L_def [symmetric] split_beta)
qed

lemma setAttractor_wf:
  assumes "wf e"
  shows "\<exists>e' k'. setAttractor rs f (e, k) = Inr (e', k') \<and> wf e'
          \<and> trailIndex e' = trailIndex e \<and> trailLength e' = trailLength e"
proof -
  have "wf (e\<lparr>currentAttractor := f, currentParams := params f\<rparr>)"
    using assms by (simp add: wf_def)
  from initializeParticles_wf_eq [OF this, of rs k] show ?thesis
    by (simp add: setAttractor_def updateBuffers_loop_fields)
qed

text \<open>Allocation in the constructor.\<close>

lemma allocates_mono: "allocates rs b \<Longrightarrow> 0 \<le> a \<Longrightarrow> a \<le> b \<Longrightarrow> allocates rs a"
  by (simp add: allocates_def)

lemma allocates_parts:
  assumes "allocates rs (pcount * tlen * 3)"
  shows "allocates rs (pcount * tlen)"
    and "1 \<le> tlen \<Longrightarrow> 0 \<le> pcount \<Longrightarrow> allocates rs (pcount * 3)"
proof -
  from assms have nn: "0 \<le> pcount * tlen" by (simp add: allocates_def)
  then show "allocates rs (pcount * tlen)"
    using assms by (intro allocates_mono [OF assms]) simp_all
  assume "1 \<le> tlen" "0 \<le> pcount"
  then have "pcount * 1 \<le> pcount * tlen" by (intro mult_left_mono) simp_all
  with \<open>0 \<le> pcount\<close> show "allocates rs (pcount * 3)"
    by (intro allocates_mono [OF assms]) simp_all
qed

lemma draw_rs_const: "draw (rs_const v) k = v"
  by (simp add: rs_const_def)

lemma allocates_rs_const:
  "allocates (rs_const v) len \<longleftrightarrow> 0 \<le> len \<and> len \<le> 4294967295"
  by (auto simp: allocates_def rs_const_def max_index_def)

lemma new_Float32Array_ok:
  "allocates rs len \<Longrightarrow> new_Float32Array rs len = Inr (replicate (nat len) (Num 0))"
  by (simp add: new_Float32Array_def)

lemma new_trails_ok:
  "allocates rs len \<Longrightarrow> new_trails rs m len = Inr (replicate m (replicate (nat len) (Num 0)))"
  by (induction m) (simp_all add: new_Float32Array_ok)

lemma construct_wf:
  assumes "0 \<le> pcount" "1 \<le> tlen" "allocates rs (pcount * tlen * 3)"
  shows "\<exists>e k'. construct rs f pcount tlen cstart cend k = Inr (e, k') \<and> wf e
           \<and> trailIndex e = Some 0 \<and> particleCount e = pcount \<and> trailLength e = tlen"
proof -
  let ?e = "\<lparr> positions = replicate (nat (pcount * tlen * 3)) (Num 0),
              colors = replicate (nat (pcount * tlen * 3)) (Num 0),
              sizes = replicate (nat (pcount * tlen)) (Num 0),
              trailPositions = replicate (nat tlen) (replicate (nat (pcount * 3)) (Num 0)),
              trailIndex = Some 0, particleCount = pcount, trailLength = tlen,
              colorStart = cstart, colorEnd = cend,
              currentAttractor = f, currentParams = params f,
              geometryDisposed = False, materialDisposed = False \<rparr>"
  note al = assms(3) allocates_parts(1) [OF assms(3)] allocates_parts(2) [OF assms(3,2,1)]
  have c: "construct rs f pcount tlen cstart cend k = initializeParticles rs (?e, k)"
    using al by (simp add: construct_def new_Float32Array_ok new_trails_ok Let_def)
  have wf: "wf ?e"
    using assms(1,2) by (simp add: wf_def nat_mult_distrib)
  from initializeParticles_wf_eq [OF wf, of rs k] show ?thesis
    by (simp add: c updateBuffers_loop_fields)
qed

text \<open>What any call that returns leaves untouched.\<close>

lemma updateBuffers_InrD: "updateBuffers e = Inr e' \<Longrightarrow> e' = updateBuffers_loop e"
  by (simp add: updateBuffers_def split: if_splits)

lemma initializeParticles_InrD:
  assumes "initializeParticles rs (e, k) = Inr (e', k')"
  shows "e' = updateBuffers_loop (e\<lparr>trailPositions := fst (initializeParticles_loop rs e k)\<rparr>)"
    and "k' = snd (initializeParticles_loop rs e k)"
  using assms
  by (auto simp: initializeParticles_def split_beta split: if_splits sum.splits
           dest: updateBuffers_InrD)

lemma update_InrD:
  assumes "update rs speed (e, k) = Inr (e', k')"
  shows "trailLength e' = trailLength e \<and> particleCount e' = particleCount e"
  using assms
  by (auto simp: update_def Let_def split_beta updateBuffers_loop_fields
           split: if_splits sum.splits option.splits dest!: updateBuffers_InrD)

lemma setAttractor_InrD:
  assumes "setAttractor rs f (e, k) = Inr (e', k')"
  shows "trailLength e' = trailLength e \<and> particleCount e' = particleCount e
         \<and> trailIndex e' = trailIndex e"
  using initializeParticles_InrD(1) [OF assms [unfolded setAttractor_def prod.case]]
  by (simp add: updateBuffers_loop_fields)

lemma construct_RangeError:
  "\<not> allocates rs (pcount * tlen * 3)
     \<Longrightarrow> construct rs f pcount tlen cstart cend k = Inl RangeError"
  by (simp add: construct_def new_Float32Array_def Let_def)

lemma construct_InrD:
  assumes "construct rs f pcount tlen cstart cend k = Inr (e, k')"
  shows "particleCount e = pcount \<and> trailLength e = tlen \<and> trailIndex e = Some 0
         \<and> 0 \<le> pcount * tlen \<and> allocates rs (pcount * tlen * 3)"
proof -
  have al: "allocates rs (pcount * tlen * 3)"
    using assms construct_RangeError [of rs pcount tlen f cstart cend k]
    by (cases "allocates rs (pcount * tlen * 3)") simp_all
  then have nn: "0 \<le> pcount * tlen" by (simp add: allocates_def)
  from assms show ?thesis
    unfolding construct_def Let_def
    by (auto simp: nn al updateBuffers_loop_fields split: sum.splits
             dest!: initializeParticles_InrD(1))
qed

lemma reachable_wf:
  assumes "reachable rs s" "1 \<le> trailLength (fst s)"
  shows "wf (fst s)"
  using assms
proof (induction rule: reachable.induct)
  case (r_construct attractor pcount tlen cstart cend k s)
  obtain e k' where s: "s = (e, k')" by (cases s)
  from r_construct(1) have d: "particleCount e = pcount" "trailLength e = tlen"
      "0 \<le> pcount * tlen" "allocates rs (pcount * tlen * 3)"
    using construct_InrD [of rs attractor pcount tlen cstart cend k e k'] by (simp_all add: s)
  with r_construct(2) have "1 \<le> tlen" by (simp add: s)
  moreover from this d(3) have "0 \<le> pcount"
    by (simp add: zero_le_mult_iff)
  ultimately show ?case
    using construct_wf [of pcount tlen rs attractor cstart cend k] r_construct(1) d(4)
    by (auto simp: s)
next
  case (r_update s speed s')
  obtain e k where s: "s = (e, k)" by (cases s)
  obtain e' k' where s': "s' = (e', k')" by (cases s')
  from r_update(2) have "trailLength e' = trailLength e"
    using update_InrD [of rs speed e k e' k'] by (simp add: s s')
  with r_update have wf: "wf e" by (simp add: s s')
  then obtain i where "trailIndex e = Some i" by (auto simp: wf_def)
  from update_wf [OF wf this, of rs speed k] r_update(2) show ?case
    by (auto simp: s s')
next
  case (r_setAttractor s attractor s')
  obtain e k where s: "s = (e, k)" by (cases s)
  obtain e' k' where s': "s' = (e', k')" by (cases s')
  from r_setAttractor(2) have "trailLength e' = trailLength e"
    using setAttractor_InrD [of rs attractor e k e' k'] by (simp add: s s')
  with r_setAttractor have wf: "wf e" by (simp add: s s')
  from setAttractor_wf [OF wf, of rs attractor k] r_setAttractor(2) show ?case
    by (auto simp: s s')
next
  case (r_setParams e k p)
  then show ?case by (simp add: setParams_def wf_def)
next
  case (r_setColors e k start end')
  then show ?case by (simp add: setColors_def wf_def)
next
  case (r_dispose e k)
  then show ?case by (simp add: dispose_def wf_def)
qed

lemma updates_wf:
  assumes "wf e" "trailIndex e = Some i"
  shows "\<exists>e' k'. updates rs speeds (e, k) = Inr (e', k') \<and> wf e'
           \<and> trailLength e' = trailLength e
           \<and> trailIndex e' = Some ((i + int (length speeds) * (trailLength e - 1))
                                      mod trailLength e)"
  using assms
proof (induction speeds arbitrary: e k i)
  case Nil
  then show ?case by (auto simp: wf_def)
next
  case (Cons speed speeds)
  let ?T = "trailLength e"
  from update_wf [OF Cons.prems, of rs speed k]
  obtain e1 k1 where u: "update rs speed (e, k) = Inr (e1, k1)" and wf1: "wf e1"
    and i1: "trailIndex e1 = Some ((i + ?T - 1) mod ?T)" and T1: "trailLength e1 = ?T"
    by blast
  from Cons.IH [OF wf1 i1, of k1]
  obtain e' k' where r: "updates rs speeds (e1, k1) = Inr (e', k')" and wf': "wf e'"
    and T': "trailLength e' = ?T"
    and i': "trailIndex e' = Some (((i + ?T - 1) mod ?T + int (length speeds) * (?T - 1)) mod ?T)"
    by (auto simp: T1)
  have "((i + ?T - 1) mod ?T + int (length speeds) * (?T - 1)) mod ?T
          = ((i + ?T - 1) + int (length speeds) * (?T - 1)) mod ?T"
    by (rule mod_add_left_eq)
  also have "(i + ?T - 1) + int (length speeds) * (?T - 1)
          = i + int (length (speed # speeds)) * (?T - 1)"
    by (simp add: algebra_simps)
  finally have "trailIndex e' = Some ((i + int (length (speed # speeds)) * (?T - 1)) mod ?T)"
    using i' by simp
  with u r wf' T' show ?case by simp
qed

lemma dispose_ub_write: "ub_write (e\<lparr>geometryDisposed := a, materialDisposed := b\<rparr>) = ub_write e"
  by (simp add: ub_write_def ub_trailIdx_def fun_eq_iff)

lemma dispose_updateBuffers_loop:
  "updateBuffers_loop (dispose e) = dispose (updateBuffers_loop e)"
  by (simp add: updateBuffers_loop_def dispose_def dispose_ub_write split: prod.splits)

lemma dispose_updateBuffers: "updateBuffers (dispose e) = map_sum id dispose (updateBuffers e)"
proof -
  have "ub_trailIdx (dispose e) = ub_trailIdx e"
    by (simp add: ub_trailIdx_def dispose_def fun_eq_iff)
  then show ?thesis
    by (simp add: updateBuffers_def dispose_updateBuffers_loop) (simp add: dispose_def)
qed

lemma dispose_set_ring:
  "(dispose e)\<lparr>trailPositions := tp\<rparr> = dispose (e\<lparr>trailPositions := tp\<rparr>)"
  "(dispose e)\<lparr>trailIndex := j\<rparr> = dispose (e\<lparr>trailIndex := j\<rparr>)"
  "(dispose e)\<lparr>trailPositions := tp, trailIndex := j\<rparr>
     = dispose (e\<lparr>trailPositions := tp, trailIndex := j\<rparr>)"
  "(dispose e)\<lparr>currentAttractor := f, currentParams := p\<rparr>
     = dispose (e\<lparr>currentAttractor := f, currentParams := p\<rparr>)"
  by (simp_all add: dispose_def)

lemma dispose_initializeParticles:
  "initializeParticles rs (dispose e, k)
     = map_sum id (map_prod dispose id) (initializeParticles rs (e, k))"
proof -
  have "initializeParticles_loop rs (dispose e) k = initializeParticles_loop rs e k"
    by (simp add: initializeParticles_loop_def dispose_def)
  moreover have "particleCount (dispose e) = particleCount e"
    "trailPositions (dispose e) = trailPositions e" "trailLength (dispose e) = trailLength e"
    by (simp_all add: dispose_def)
  ultimately show ?thesis
    by (simp add: initializeParticles_def split_beta dispose_set_ring dispose_updateBuffers
          split: sum.splits)
qed

lemma dispose_update:
  "update rs speed (dispose e, k) = map_sum id (map_prod dispose id) (update rs speed (e, k))"
proof -
  have l: "update_loop rs (dispose e) = update_loop rs e"
    by (simp add: update_loop_def dispose_def fun_eq_iff)
  have f: "particleCount (dispose e) = particleCount e"
    "trailPositions (dispose e) = trailPositions e" "trailLength (dispose e) = trailLength e"
    "trailIndex (dispose e) = trailIndex e" "currentAttractor (dispose e) = currentAttractor e"
    by (simp_all add: dispose_def)
  show ?thesis
    by (simp add: update_def l f Let_def split_beta dispose_set_ring dispose_updateBuffers
          split: sum.splits option.splits)
qed

lemma dispose_setAttractor:
  "setAttractor rs f (dispose e, k)
     = map_sum id (map_prod dispose id) (setAttractor rs f (e, k))"
  by (simp add: setAttractor_def dispose_set_ring dispose_initializeParticles)

text \<open>No call produces an error other than the two built-in ones.\<close>

lemma updateBuffers_errors: "updateBuffers e = Inl err \<Longrightarrow> err = TypeError"
  by (simp add: updateBuffers_def split: if_splits)

lemma initializeParticles_errors: "initializeParticles rs s = Inl err \<Longrightarrow> err = TypeError"
  by (cases s)
     (auto simp: initializeParticles_def split_beta split: if_splits sum.splits
           dest: updateBuffers_errors)

lemma update_errors: "update rs speed s = Inl err \<Longrightarrow> err = TypeError"
  by (cases s)
     (auto simp: update_def Let_def split_beta split: if_splits sum.splits option.splits
           dest: updateBuffers_errors)

lemma setAttractor_errors: "setAttractor rs f s = Inl err \<Longrightarrow> err = TypeError"
  by (cases s) (auto simp: setAttractor_def dest: initializeParticles_errors)



section \<open>Loops that store into arrays\<close>

text \<open>A loop nest is a loop over the pairs of its indices.\<close>

lemma fold_product:
  "fold (\<lambda>a. fold (g a) ys) xs s = fold (\<lambda>(a, b). g a b) (List.product xs ys) s"
  by (induction xs arbitrary: s) (simp_all add: fold_map comp_def)

text \<open>A loop that stores one value per key, at places that differ from key to key.\<close>

lemma fold_update_length [simp]:
  "length (fold (\<lambda>k xs. xs[idx k := v k]) ks xs) = length xs"
  by (induction ks arbitrary: xs) simp_all

lemma fold_update_miss:
  "q \<notin> idx ` set ks \<Longrightarrow> fold (\<lambda>k xs. xs[idx k := v k]) ks xs ! q = xs ! q"
  by (induction ks arbitrary: xs) auto

lemma fold_update_hit:
  "distinct (map idx ks) \<Longrightarrow> k \<in> set ks \<Longrightarrow> idx k < length xs
   \<Longrightarrow> fold (\<lambda>k xs. xs[idx k := v k]) ks xs ! idx k = v k"
proof (induction ks arbitrary: xs)
  case Nil
  then show ?case by simp
next
  case (Cons a ks)
  show ?case
  proof (cases "k = a")
    case True
    with Cons.prems have "idx k \<notin> idx ` set ks" by auto
    then have "fold (\<lambda>k xs. xs[idx k := v k]) ks (xs[idx a := v a]) ! idx k
                 = xs[idx a := v a] ! idx k"
      by (rule fold_update_miss)
    with True Cons.prems show ?thesis by simp
  next
    case False
    with Cons.prems have "k \<in> set ks" "distinct (map idx ks)" by auto
    with Cons.IH [of "xs[idx a := v a]"] Cons.prems show ?thesis by simp
  qed
qed

text \<open>A projection of the state of a loop is the loop on the projection, when each
  iteration acts on the projection alone.\<close>

lemma fold_projection:
  assumes "\<And>k s. pr (W k s) = w k (pr s)"
  shows "pr (fold W ks s) = fold w ks (pr s)"
  by (induction ks arbitrary: s) (simp_all add: assms)

text \<open>Flat offsets of the renderable buffer.\<close>

lemma flat_bound:
  assumes "i < n" "t < (T :: nat)"
  shows "i * T + t < n * T"
proof -
  have "i * T + t < i * T + T" using assms by simp
  also have "\<dots> = Suc i * T" by simp
  also have "\<dots> \<le> n * T" using assms by (intro mult_le_mono1) simp
  finally show ?thesis .
qed

lemma flat_inj:
  assumes "i * T + t = i' * T + t'" "t < T" "t' < (T :: nat)"
  shows "i = i' \<and> t = t'"
proof -
  have "i = (i * T + t) div T" using assms(2) by simp
  also have "\<dots> = (i' * T + t') div T" by (simp only: assms(1))
  also have "\<dots> = i'" using assms(3) by simp
  finally have "i = i'" .
  with assms(1) show ?thesis by simp
qed

lemma flat3_inj:
  assumes "(i * T + t) * 3 + c = (i' * T + t') * 3 + c'" "t < T" "t' < (T :: nat)"
    "c < 3" "c' < (3 :: nat)"
  shows "i = i' \<and> t = t' \<and> c = c'"
proof -
  from assms(1,4,5) have "i * T + t = i' * T + t' \<and> c = c'" by presburger
  with flat_inj [of i T t i' t'] assms(2,3) show ?thesis by simp
qed

lemma flat_distinct:
  "distinct (map (\<lambda>(i, t). i * T + t) (List.product [0..<n] [0..<T]))"
proof -
  have "inj_on (\<lambda>(i, t). i * T + t) (set (List.product [0..<n] [0..<T]))"
  proof (rule inj_onI, clarify)
    fix i t i' t'
    assume "(i, t) \<in> set (List.product [0..<n] [0..<T])"
      "(i', t') \<in> set (List.product [0..<n] [0..<T])" "i * T + t = i' * T + t'"
    then show "i = i' \<and> t = t'"
      using flat_inj [of i T t i' t'] by simp
  qed
  then show ?thesis
    by (simp add: distinct_map distinct_product)
qed

lemma flat3_distinct:
  "distinct (map (\<lambda>((i, t), c). (i * T + t) * 3 + c)
               (List.product (List.product [0..<n] [0..<T]) [0..<3]))"
proof -
  have "inj_on (\<lambda>((i, t), c). (i * T + t) * 3 + c)
          (set (List.product (List.product [0..<n] [0..<T]) [0..<3]))"
  proof (rule inj_onI)
    fix p q :: "(nat \<times> nat) \<times> nat"
    obtain i t c where p: "p = ((i, t), c)" by (metis surj_pair)
    obtain i' t' c' where q: "q = ((i', t'), c')" by (metis surj_pair)
    assume "p \<in> set (List.product (List.product [0..<n] [0..<T]) [0..<3])"
      "q \<in> set (List.product (List.product [0..<n] [0..<T]) [0..<3])"
      "(case p of (x, c) \<Rightarrow> (case x of (i, t) \<Rightarrow> \<lambda>c. (i * T + t) * 3 + c) c)
         = (case q of (x, c) \<Rightarrow> (case x of (i, t) \<Rightarrow> \<lambda>c. (i * T + t) * 3 + c) c)"
    then show "p = q"
      using flat3_inj [of i T t c i' t' c'] by (simp add: p q)
  qed
  then show ?thesis
    by (simp add: distinct_map distinct_product)
qed

section \<open>The renderable buffer after updateBuffers\<close>

lemma upt_3: "[0..<3] = [0, 1, 2]"
  by (simp add: upt_rec)

lemma ub_write_positions:
  "fst (ub_write e i t s)
     = fold (\<lambda>c xs. xs[(i * nat (trailLength e) + t) * 3 + c := pos_value e i t c]) [0..<3]
         (fst s)"
  by (cases s) (simp add: ub_write_def Let_def upt_3 f32_set_def pos_value_def)

lemma ub_write_colors:
  "fst (snd (ub_write e i t s))
     = fold (\<lambda>c xs. xs[(i * nat (trailLength e) + t) * 3 + c := color_value e t c]) [0..<3]
         (fst (snd s))"
  by (cases s)
     (simp add: ub_write_def Let_def upt_3 f32_set_def color_value_def component_def
        trailFactor_def)

lemma ub_write_sizes:
  "snd (snd (ub_write e i t s))
     = (snd (snd s))[i * nat (trailLength e) + t := size_value e t]"
  by (cases s) (simp add: ub_write_def Let_def f32_set_def size_value_def trailFactor_def)

text \<open>The loop nest of \<^verbatim>\<open>updateBuffers\<close>, seen from each of the three arrays: one store
  per particle, trail position and coordinate.\<close>

lemma updateBuffers_loop_state:
  "fold (\<lambda>i. fold (ub_write e i) [0..<nat (trailLength e)])
      [0..<nat (particleCount e)] (positions e, colors e, sizes e)
     = (positions (updateBuffers_loop e), colors (updateBuffers_loop e),
        sizes (updateBuffers_loop e))"
  by (simp add: updateBuffers_loop_def split_beta)

lemma updateBuffers_loop_positions_fold:
  "positions (updateBuffers_loop e)
     = fold (\<lambda>k xs. xs[(fst (fst k) * nat (trailLength e) + snd (fst k)) * 3 + snd k
                          := pos_value e (fst (fst k)) (snd (fst k)) (snd k)])
         (List.product (List.product [0..<nat (particleCount e)] [0..<nat (trailLength e)])
            [0..<3])
         (positions e)"
proof -
  let ?S = "fold (\<lambda>i. fold (ub_write e i) [0..<nat (trailLength e)])
              [0..<nat (particleCount e)] (positions e, colors e, sizes e)"
  have "positions (updateBuffers_loop e) = fst ?S"
    by (simp add: updateBuffers_loop_state)
  also have "?S = fold (\<lambda>(i, t). ub_write e i t)
                    (List.product [0..<nat (particleCount e)] [0..<nat (trailLength e)])
                    (positions e, colors e, sizes e)"
    by (rule fold_product)
  also have "fst \<dots> = fold (\<lambda>p. fold (\<lambda>c xs. xs[(fst p * nat (trailLength e) + snd p) * 3 + c
                                                  := pos_value e (fst p) (snd p) c]) [0..<3])
                    (List.product [0..<nat (particleCount e)] [0..<nat (trailLength e)])
                    (positions e)"
    by (subst fold_projection [where pr = fst and w = "\<lambda>p. fold (\<lambda>c xs.
          xs[(fst p * nat (trailLength e) + snd p) * 3 + c
               := pos_value e (fst p) (snd p) c]) [0..<3]"])
       (auto simp: ub_write_positions)
  also have "\<dots> = fold (\<lambda>k xs. xs[(fst (fst k) * nat (trailLength e) + snd (fst k)) * 3 + snd k
                          := pos_value e (fst (fst k)) (snd (fst k)) (snd k)])
         (List.product (List.product [0..<nat (particleCount e)] [0..<nat (trailLength e)])
            [0..<3])
         (positions e)"
    by (subst fold_product) (simp add: split_def)
  finally show ?thesis .
qed

lemma updateBuffers_loop_colors_fold:
  "colors (updateBuffers_loop e)
     = fold (\<lambda>k xs. xs[(fst (fst k) * nat (trailLength e) + snd (fst k)) * 3 + snd k
                          := color_value e (snd (fst k)) (snd k)])
         (List.product (List.product [0..<nat (particleCount e)] [0..<nat (trailLength e)])
            [0..<3])
         (colors e)"
proof -
  let ?S = "fold (\<lambda>i. fold (ub_write e i) [0..<nat (trailLength e)])
              [0..<nat (particleCount e)] (positions e, colors e, sizes e)"
  have "colors (updateBuffers_loop e) = fst (snd ?S)"
    by (simp add: updateBuffers_loop_state)
  also have "?S = fold (\<lambda>(i, t). ub_write e i t)
                    (List.product [0..<nat (particleCount e)] [0..<nat (trailLength e)])
                    (positions e, colors e, sizes e)"
    by (rule fold_product)
  also have "fst (snd \<dots>)
      = fold (\<lambda>p. fold (\<lambda>c xs. xs[(fst p * nat (trailLength e) + snd p) * 3 + c
                                      := color_value e (snd p) c]) [0..<3])
          (List.product [0..<nat (particleCount e)] [0..<nat (trailLength e)])
          (colors e)"
    by (subst fold_projection [where pr = "\<lambda>s. fst (snd s)" and w = "\<lambda>p. fold (\<lambda>c xs.
          xs[(fst p * nat (trailLength e) + snd p) * 3 + c := color_value e (snd p) c])
          [0..<3]"])
       (auto simp: ub_write_colors)
  also have "\<dots> = fold (\<lambda>k xs. xs[(fst (fst k) * nat (trailLength e) + snd (fst k)) * 3 + snd k
                          := color_value e (snd (fst k)) (snd k)])
         (List.product (List.product [0..<nat (particleCount e)] [0..<nat (trailLength e)])
            [0..<3])
         (colors e)"
    by (subst fold_product) (simp add: split_def)
  finally show ?thesis .
qed

lemma updateBuffers_loop_sizes_fold:
  "sizes (updateBuffers_loop e)
     = fold (\<lambda>k xs. xs[fst k * nat (trailLength e) + snd k := size_value e (snd k)])
         (List.product [0..<nat (particleCount e)] [0..<nat (trailLength e)])
         (sizes e)"
proof -
  let ?S = "fold (\<lambda>i. fold (ub_write e i) [0..<nat (trailLength e)])
              [0..<nat (particleCount e)] (positions e, colors e, sizes e)"
  have "sizes (updateBuffers_loop e) = snd (snd ?S)"
    by (simp add: updateBuffers_loop_state)
  also have "?S = fold (\<lambda>(i, t). ub_write e i t)
                    (List.product [0..<nat (particleCount e)] [0..<nat (trailLength e)])
                    (positions e, colors e, sizes e)"
    by (rule fold_product)
  also have "snd (snd \<dots>)
      = fold (\<lambda>k xs. xs[fst k * nat (trailLength e) + snd k := size_value e (snd k)])
          (List.product [0..<nat (particleCount e)] [0..<nat (trailLength e)])
          (sizes e)"
    by (subst fold_projection [where pr = "\<lambda>s. snd (snd s)" and w = "\<lambda>k xs.
          xs[fst k * nat (trailLength e) + snd k := size_value e (snd k)]"])
       (auto simp: ub_write_sizes)
  finally show ?thesis .
qed

text \<open>Every place of the three arrays, after the loop.\<close>

lemma updateBuffers_loop_positions:
  assumes "i < nat (particleCount e)" "t < nat (trailLength e)" "c < 3"
    and "length (positions e) = nat (particleCount e) * nat (trailLength e) * 3"
  shows "positions (updateBuffers_loop e) ! ((i * nat (trailLength e) + t) * 3 + c)
           = pos_value e i t c"
proof -
  let ?T = "nat (trailLength e)"
  let ?ks = "List.product (List.product [0..<nat (particleCount e)] [0..<?T]) [0..<3]"
  have d: "distinct (map (\<lambda>k. (fst (fst k) * ?T + snd (fst k)) * 3 + snd k) ?ks)"
    using flat3_distinct [of ?T "nat (particleCount e)"] by (simp add: split_def)
  have k: "((i, t), c) \<in> set ?ks" using assms by simp
  have "i * ?T + t < nat (particleCount e) * ?T"
    using assms by (intro flat_bound)
  then have b: "(i * ?T + t) * 3 + c < length (positions e)"
    using assms by simp
  from fold_update_hit [where idx = "\<lambda>k. (fst (fst k) * ?T + snd (fst k)) * 3 + snd k"
      and v = "\<lambda>k. pos_value e (fst (fst k)) (snd (fst k)) (snd k)", OF d k] b
  show ?thesis
    by (simp add: updateBuffers_loop_positions_fold)
qed

lemma updateBuffers_loop_colors:
  assumes "i < nat (particleCount e)" "t < nat (trailLength e)" "c < 3"
    and "length (colors e) = nat (particleCount e) * nat (trailLength e) * 3"
  shows "colors (updateBuffers_loop e) ! ((i * nat (trailLength e) + t) * 3 + c)
           = color_value e t c"
proof -
  let ?T = "nat (trailLength e)"
  let ?ks = "List.product (List.product [0..<nat (particleCount e)] [0..<?T]) [0..<3]"
  have d: "distinct (map (\<lambda>k. (fst (fst k) * ?T + snd (fst k)) * 3 + snd k) ?ks)"
    using flat3_distinct [of ?T "nat (particleCount e)"] by (simp add: split_def)
  have k: "((i, t), c) \<in> set ?ks" using assms by simp
  have "i * ?T + t < nat (particleCount e) * ?T"
    using assms by (intro flat_bound)
  then have b: "(i * ?T + t) * 3 + c < length (colors e)"
    using assms by simp
  from fold_update_hit [where idx = "\<lambda>k. (fst (fst k) * ?T + snd (fst k)) * 3 + snd k"
      and v = "\<lambda>k. color_value e (snd (fst k)) (snd k)", OF d k] b
  show ?thesis
    by (simp add: updateBuffers_loop_colors_fold)
qed

lemma updateBuffers_loop_sizes:
  assumes "i < nat (particleCount e)" "t < nat (trailLength e)"
    and "length (sizes e) = nat (particleCount e) * nat (trailLength e)"
  shows "sizes (updateBuffers_loop e) ! (i * nat (trailLength e) + t) = size_value e t"
proof -
  let ?T = "nat (trailLength e)"
  let ?ks = "List.product [0..<nat (particleCount e)] [0..<?T]"
  have d: "distinct (map (\<lambda>k. fst k * ?T + snd k) ?ks)"
    using flat_distinct [of ?T "nat (particleCount e)"] by (simp add: split_def)
  have k: "(i, t) \<in> set ?ks" using assms by simp
  have b: "i * ?T + t < length (sizes e)"
    using assms by (simp add: flat_bound)
  from fold_update_hit [where idx = "\<lambda>k. fst k * ?T + snd k"
      and v = "\<lambda>k. size_value e (snd k)", OF d k] b
  show ?thesis
    by (simp add: updateBuffers_loop_sizes_fold)
qed

section \<open>The ring after the particle loops\<close>

lemma store3_fold:
  "store3 r i v = fold (\<lambda>c xs. xs[i * 3 + c := f32 (coord c v)]) [0..<3] r"
  by (simp add: store3_def f32_set_def upt_3 coord_def)

lemma store3_length [simp]: "length (store3 r i v) = length r"
  by (simp add: store3_def)

lemma cell_inj:
  assumes "i * 3 + c = i' * 3 + c'" "c < 3" "c' < (3 :: nat)"
  shows "i = i' \<and> c = c'"
  using assms by presburger

lemma cell_distinct: "distinct (map (\<lambda>k. fst k * 3 + snd k) (List.product [0..<n] [0..<3]))"
proof -
  have "inj_on (\<lambda>k. fst k * 3 + snd k) (set (List.product [0..<n] [0..<3]))"
  proof (rule inj_onI)
    fix p q :: "nat \<times> nat"
    assume "p \<in> set (List.product [0..<n] [0..<3])" "q \<in> set (List.product [0..<n] [0..<3])"
      "fst p * 3 + snd p = fst q * 3 + snd q"
    then show "p = q"
      using cell_inj [of "fst p" "snd p" "fst q" "snd q"] by (auto simp: prod_eq_iff)
  qed
  then show ?thesis
    by (simp add: distinct_map distinct_product)
qed

text \<open>A loop over the particles that stores a position per particle into one slot.\<close>

lemma fold_store3:
  "fold (\<lambda>i r. store3 r i (V i)) is r
     = fold (\<lambda>k xs. xs[fst k * 3 + snd k := f32 (coord (snd k) (V (fst k)))])
         (List.product is [0..<3]) r"
  by (simp add: store3_fold fold_product split_def)

lemma fold_store3_length [simp]: "length (fold (\<lambda>i r. store3 r i (V i)) is r) = length r"
  by (simp add: fold_store3)

lemma fold_store3_hit:
  assumes "i < n" "c < 3" "i * 3 + c < length r"
  shows "fold (\<lambda>i r. store3 r i (V i)) [0..<n] r ! (i * 3 + c) = f32 (coord c (V i))"
proof -
  have k: "(i, c) \<in> set (List.product [0..<n] [0..<3])" using assms by simp
  from fold_update_hit [where idx = "\<lambda>k. fst k * 3 + snd k"
      and v = "\<lambda>k. f32 (coord (snd k) (V (fst k)))", OF cell_distinct k] assms(3)
  show ?thesis by (simp add: fold_store3)
qed

lemma fold_store3_miss:
  assumes "n * 3 \<le> q"
  shows "fold (\<lambda>i r. store3 r i (V i)) [0..<n] r ! q = r ! q"
proof -
  have "q \<notin> (\<lambda>k. fst k * 3 + snd k) ` set (List.product [0..<n] [0..<3])"
    using assms by auto
  then show ?thesis
    by (simp add: fold_store3 fold_update_miss)
qed

text \<open>A loop whose every iteration rewrites the same slot of the ring.\<close>

lemma fold_same_slot:
  assumes "s < length tp"
  shows "fold (\<lambda>i tp. tp[s := g i (tp ! s)]) is tp = tp[s := fold g is (tp ! s)]"
  using assms by (induction "is" arbitrary: tp) simp_all

text \<open>One iteration of the loop of \<^verbatim>\<open>update\<close> stores what \<open>particle_next\<close> says.\<close>

lemma update_particle_eq:
  "update_particle rs f p h cur nxt i (tp, k)
     = (tp[nxt := store3 (tp ! nxt) i (fst (particle_next rs f p h (tp ! cur) i k))],
        snd (particle_next rs f p h (tp ! cur) i k))"
  by (simp add: update_particle_def particle_next_def Let_def all_finite_def split_beta
        Math_random_def sample_position_def store3_def)

text \<open>An iteration reads only the coordinates of its own particle.\<close>

lemma particle_next_cong:
  assumes "\<And>c. c < 3 \<Longrightarrow> f32_get row (i * 3 + c) = f32_get row' (i * 3 + c)"
  shows "particle_next rs f p h row i k = particle_next rs f p h row' i k"
  using assms [of 0] assms [of 1] assms [of 2] by (simp add: particle_next_def)

lemma update_loop_fold:
  assumes "cur < length tp" "nxt < length tp"
  shows "fold (update_particle rs f p h cur nxt) [0..<m] (tp, k)
           = (tp[nxt := fold (\<lambda>i r. store3 r i (stored_next rs f p h (tp ! cur) k i)) [0..<m]
                          (tp ! nxt)],
              draws_before rs f p h (tp ! cur) k m)"
proof (induction m)
  case 0
  then show ?case by simp
next
  case (Suc m)
  let ?V = "stored_next rs f p h (tp ! cur) k"
  let ?R = "fold (\<lambda>i r. store3 r i (?V i)) [0..<m] (tp ! nxt)"
  let ?K = "draws_before rs f p h (tp ! cur) k"
  have rd: "f32_get (tp[nxt := ?R] ! cur) (m * 3 + c) = f32_get (tp ! cur) (m * 3 + c)"
    if "c < 3" for c
  proof (cases "cur = nxt")
    case True
    have "?R ! (m * 3 + c) = (tp ! nxt) ! (m * 3 + c)"
      by (rule fold_store3_miss) simp
    then show ?thesis
      using True assms by (simp add: f32_get_def)
  next
    case False
    then show ?thesis by simp
  qed
  have pn: "particle_next rs f p h (tp[nxt := ?R] ! cur) m (?K m)
              = particle_next rs f p h (tp ! cur) m (?K m)"
    by (rule particle_next_cong) (rule rd)
  show ?case
    using assms
    by (simp add: Suc.IH update_particle_eq pn [unfolded stored_next_def] stored_next_def)
qed

lemma update_loop_eq:
  assumes "cur < length (trailPositions e)" "nxt < length (trailPositions e)"
  shows "update_loop rs e h cur nxt k
           = ((trailPositions e)[nxt :=
                 fold (\<lambda>i r. store3 r i
                         (stored_next rs (currentAttractor e) (currentParams e) h
                            (trailPositions e ! cur) k i))
                   [0..<nat (particleCount e)] (trailPositions e ! nxt)],
              draws_before rs (currentAttractor e) (currentParams e) h
                (trailPositions e ! cur) k (nat (particleCount e)))"
  unfolding update_loop_def by (rule update_loop_fold [OF assms])

section \<open>The repack after an update\<close>

lemma wf_row_length:
  assumes "wf e" "s < nat (trailLength e)"
  shows "length (trailPositions e ! s) = nat (particleCount e) * 3"
proof -
  from assms have "map length (trailPositions e) ! s = nat (particleCount e) * 3"
    by (simp add: wf_def)
  moreover have "s < length (trailPositions e)"
    using assms by (simp add: wf_ring_length)
  ultimately show ?thesis by simp
qed

lemma mod_slot:
  assumes "0 < (T :: int)"
  shows "nat (a mod T) < nat T"
  using assms by simp

lemma pos_value_wf:
  assumes "wf e" "trailIndex e = Some j" "i < nat (particleCount e)" "c < 3"
  shows "pos_value e i t c
           = f32 (jmul (trailPositions e ! nat ((j + int t) mod trailLength e) ! (i * 3 + c))
                       (scale (currentAttractor e)))"
proof -
  from assms have T: "0 < trailLength e" and j: "0 \<le> j" by (auto simp: wf_def)
  have s: "nat ((j + int t) mod trailLength e) < nat (trailLength e)"
    using T by simp
  have "slot_index (trailPositions e) (ub_trailIdx e t)
          = Some (nat ((j + int t) mod trailLength e))"
    using assms(2) j T wf_ring_length [OF assms(1)] by (rule ub_slot_defined)
  moreover have "i * 3 + c < length (trailPositions e ! nat ((j + int t) mod trailLength e))"
    using assms(3,4) by (simp add: wf_row_length [OF assms(1) s])
  ultimately show ?thesis
    by (simp add: pos_value_def ring_read_def f32_get_def)
qed

lemma color_value_eq:
  "color_value e t c
     = f32 (lerp (component c (colorEnd e)) (component c (colorStart e))
              (jdiv (Num (real t)) (Num (real_of_int (trailLength e)))))"
  by (simp add: color_value_def lerpColors_def component_def trailFactor_def)

text \<open>The ring after an update of a well-formed engine: one slot is rewritten, particle by
  particle, and the others are as they were.\<close>

lemma update_ring:
  assumes wf: "wf e" and j: "trailIndex e = Some j"
    and u: "update rs speed (e, k) = Inr (e', k')"
  defines "nx \<equiv> (j + trailLength e - 1) mod trailLength e"
  shows "trailPositions e'
           = (trailPositions e)[nat nx :=
                fold (\<lambda>i r. store3 r i
                        (stored_next rs (currentAttractor e) (currentParams e)
                           (jmul (dt (currentAttractor e)) speed) (trailPositions e ! nat j) k i))
                  [0..<nat (particleCount e)] (trailPositions e ! nat nx)]"
    and "k' = draws_before rs (currentAttractor e) (currentParams e)
                (jmul (dt (currentAttractor e)) speed) (trailPositions e ! nat j) k
                (nat (particleCount e))"
    and "e' = updateBuffers_loop (e\<lparr>trailPositions := trailPositions e', trailIndex := Some nx\<rparr>)"
proof -
  from wf j have T: "0 < trailLength e" and j0: "0 \<le> j" and jT: "j < trailLength e"
    by (auto simp: wf_def)
  have len: "length (trailPositions e) = nat (trailLength e)"
    by (rule wf_ring_length [OF wf])
  have c: "nat j < length (trailPositions e)" using j0 jT len by simp
  have n: "nat nx < length (trailPositions e)" using T len by (simp add: nx_def)
  note eq = update_wf_eq [OF wf j, of rs speed k, folded nx_def]
  from u eq have
    e': "e' = updateBuffers_loop
                (e\<lparr>trailPositions := fst (update_loop rs e (jmul (dt (currentAttractor e)) speed)
                                           (nat j) (nat nx) k),
                   trailIndex := Some nx\<rparr>)"
    and k': "k' = snd (update_loop rs e (jmul (dt (currentAttractor e)) speed)
                        (nat j) (nat nx) k)"
    by simp_all
  from e' have tp: "trailPositions e' = fst (update_loop rs e (jmul (dt (currentAttractor e)) speed)
                                           (nat j) (nat nx) k)"
    by (simp add: updateBuffers_loop_fields)
  show "trailPositions e'
           = (trailPositions e)[nat nx :=
                fold (\<lambda>i r. store3 r i
                        (stored_next rs (currentAttractor e) (currentParams e)
                           (jmul (dt (currentAttractor e)) speed) (trailPositions e ! nat j) k i))
                  [0..<nat (particleCount e)] (trailPositions e ! nat nx)]"
    by (simp add: tp update_loop_eq [OF c n])
  show "k' = draws_before rs (currentAttractor e) (currentParams e)
                (jmul (dt (currentAttractor e)) speed) (trailPositions e ! nat j) k
                (nat (particleCount e))"
    by (simp add: k' update_loop_eq [OF c n])
  show "e' = updateBuffers_loop (e\<lparr>trailPositions := trailPositions e', trailIndex := Some nx\<rparr>)"
    unfolding tp by (rule e')
qed

lemma older_slot:
  assumes "0 < (T :: int)" "0 \<le> j" "j < T" "0 < t" "t < nat T"
  shows "((j + T - 1) mod T + int t) mod T = (j + int (t - 1)) mod T"
    and "nat (((j + T - 1) mod T + int t) mod T) \<noteq> nat ((j + T - 1) mod T)"
proof -
  have "((j + T - 1) mod T + int t) mod T = (j + T - 1 + int t) mod T"
    by (rule mod_add_left_eq)
  also have "j + T - 1 + int t = (j + int (t - 1)) + T"
    using assms(4) by (simp add: of_nat_diff)
  also have "\<dots> mod T = (j + int (t - 1)) mod T"
    by simp
  finally show a: "((j + T - 1) mod T + int t) mod T = (j + int (t - 1)) mod T" .
  have "((j + T - 1) mod T + int t) mod T \<noteq> (j + T - 1) mod T"
  proof
    assume "((j + T - 1) mod T + int t) mod T = (j + T - 1) mod T"
    then have "((j + T - 1) + int t) mod T = (j + T - 1) mod T"
      by (simp add: mod_add_left_eq)
    then have "T dvd ((j + T - 1) + int t) - (j + T - 1)"
      by (simp add: mod_eq_dvd_iff)
    then have "T dvd int t" by simp
    moreover have "0 < int t" "int t < T" using assms by simp_all
    ultimately show False
      using zdvd_not_zless by blast
  qed
  moreover have "0 \<le> ((j + T - 1) mod T + int t) mod T" "0 \<le> (j + T - 1) mod T"
    using assms(1) by simp_all
  ultimately show "nat (((j + T - 1) mod T + int t) mod T) \<noteq> nat ((j + T - 1) mod T)"
    by simp
qed

section \<open>The ring after initializeParticles\<close>

text \<open>A loop over all the slots of the ring that rewrites each slot from itself.\<close>

lemma fold_each_slot_length [simp]:
  "length (fold (\<lambda>t tp. tp[t := g (tp ! t)]) ts tp) = length tp"
  by (induction ts arbitrary: tp) simp_all

lemma fold_each_slot_nth:
  assumes "m \<le> length tp" "s < length tp"
  shows "fold (\<lambda>t tp. tp[t := g (tp ! t)]) [0..<m] tp ! s = (if s < m then g (tp ! s) else tp ! s)"
  using assms by (induction m) (auto simp: nth_list_update less_Suc_eq)

lemma fold_each_slot:
  "fold (\<lambda>t tp. tp[t := g (tp ! t)]) [0..<length tp] tp = map g tp"
  by (rule nth_equalityI) (simp_all add: fold_each_slot_nth)

lemma ip_write_store3: "ip_write i x y z t tp = tp[t := store3 (tp ! t) i (x, y, z)]"
  by (simp add: ip_write_def store3_def)

lemma ip_particle_eq:
  assumes "length tp = T"
  shows "ip_particle rs sc T i (tp, k)
           = (map (\<lambda>r. store3 r i (sample_position rs sc k)) tp, k + 3)"
proof -
  have "fold (ip_write i x y z) [0..<length tp] tp = map (\<lambda>r. store3 r i (x, y, z)) tp"
    for x y z
    using fold_each_slot [of "\<lambda>r. store3 r i (x, y, z)" tp]
    by (simp add: ip_write_store3 [abs_def])
  then show ?thesis
    using assms
    by (simp add: ip_particle_def Math_random_def sample_position_def Let_def)
qed

lemma ip_loop_fold:
  assumes "length tp = T"
  shows "fold (ip_particle rs sc T) [0..<m] (tp, k)
           = (map (fold (\<lambda>i r. store3 r i (sample_position rs sc (k + 3 * i))) [0..<m]) tp,
              k + 3 * m)"
proof (induction m)
  case 0
  then show ?case by simp
next
  case (Suc m)
  have len: "length (map (fold (\<lambda>i r. store3 r i (sample_position rs sc (k + 3 * i)))
                            [0..<m]) tp) = T"
    using assms by simp
  show ?case
    by (simp add: Suc.IH ip_particle_eq [OF len])
qed

lemma initializeParticles_loop_eq:
  assumes "length (trailPositions e) = nat (trailLength e)"
  shows "initializeParticles_loop rs e k
           = (map (fold (\<lambda>i r. store3 r i
                            (sample_position rs (scale (currentAttractor e)) (k + 3 * i)))
                     [0..<nat (particleCount e)]) (trailPositions e),
              k + 3 * nat (particleCount e))"
  unfolding initializeParticles_loop_def by (rule ip_loop_fold [OF assms])

text \<open>A slot of three numbers per particle is overwritten entirely: what it held before does
  not matter.\<close>

lemma seeded_row:
  assumes "length r = n * 3" "length r' = n * 3"
  shows "fold (\<lambda>i r. store3 r i (V i)) [0..<n] r = fold (\<lambda>i r. store3 r i (V i)) [0..<n] r'"
proof (rule nth_equalityI)
  show "length (fold (\<lambda>i r. store3 r i (V i)) [0..<n] r)
          = length (fold (\<lambda>i r. store3 r i (V i)) [0..<n] r')"
    using assms by simp
next
  fix q
  assume "q < length (fold (\<lambda>i r. store3 r i (V i)) [0..<n] r)"
  then have q: "q < n * 3" using assms by simp
  then have i: "q div 3 < n" "q mod 3 < 3" "q = q div 3 * 3 + q mod 3"
    by auto
  have "fold (\<lambda>i r. store3 r i (V i)) [0..<n] r ! (q div 3 * 3 + q mod 3)
          = f32 (coord (q mod 3) (V (q div 3)))"
    using q assms by (intro fold_store3_hit i) simp
  moreover have "fold (\<lambda>i r. store3 r i (V i)) [0..<n] r' ! (q div 3 * 3 + q mod 3)
          = f32 (coord (q mod 3) (V (q div 3)))"
    using q assms by (intro fold_store3_hit i) simp
  ultimately show "fold (\<lambda>i r. store3 r i (V i)) [0..<n] r ! q
                     = fold (\<lambda>i r. store3 r i (V i)) [0..<n] r' ! q"
    using i(3) by simp
qed

section \<open>Engines without a trail slot\<close>

text \<open>The runtime has allocated the arrays of every reachable engine.\<close>

lemma reachable_allocates:
  assumes "reachable rs s"
  shows "allocates rs (particleCount (fst s) * trailLength (fst s) * 3)"
  using assms
proof (induction rule: reachable.induct)
  case (r_construct attractor pcount tlen cstart cend k s)
  obtain e k' where s: "s = (e, k')" by (cases s)
  from r_construct show ?case
    using construct_InrD [of rs attractor pcount tlen cstart cend k e k'] by (simp add: s)
next
  case (r_update s speed s')
  obtain e k where s: "s = (e, k)" by (cases s)
  obtain e' k' where s': "s' = (e', k')" by (cases s')
  from r_update show ?case
    using update_InrD [of rs speed e k e' k'] by (simp add: s s')
next
  case (r_setAttractor s attractor s')
  obtain e k where s: "s = (e, k)" by (cases s)
  obtain e' k' where s': "s' = (e', k')" by (cases s')
  from r_setAttractor show ?case
    using setAttractor_InrD [of rs attractor e k e' k'] by (simp add: s s')
next
  case (r_setParams e k p)
  then show ?case by (simp add: setParams_def)
next
  case (r_setColors e k start end')
  then show ?case by (simp add: setColors_def)
next
  case (r_dispose e k)
  then show ?case by (simp add: dispose_def)
qed

lemma fold_skip: "fold (\<lambda>i. id) xs s = s"
  by (induction xs) simp_all

lemma updateBuffers_loop_empty:
  "trailLength e \<le> 0 \<Longrightarrow> updateBuffers_loop e = e"
  by (simp add: updateBuffers_loop_def fold_skip)

lemma updateBuffers_empty:
  "trailLength e \<le> 0 \<Longrightarrow> updateBuffers e = Inr e"
  by (simp add: updateBuffers_def updateBuffers_loop_empty)

lemma ip_loop_empty:
  "fold (ip_particle rs sc 0) [0..<m] (tp, k) = (tp, k + 3 * m)"
  by (induction m) (simp_all add: ip_particle_def Math_random_def Let_def)

lemma initializeParticles_empty:
  assumes "trailLength e \<le> 0"
  shows "initializeParticles rs (e, k) = Inr (e, k + 3 * nat (particleCount e))"
  using assms
  by (simp add: initializeParticles_def initializeParticles_loop_def ip_loop_empty
        updateBuffers_empty)

lemma construct_empty:
  assumes "tlen \<le> 0" "allocates rs (pcount * tlen * 3)"
  shows "construct rs f pcount tlen cstart cend k
           = Inr (\<lparr> positions = replicate (nat (pcount * tlen * 3)) (Num 0),
                    colors = replicate (nat (pcount * tlen * 3)) (Num 0),
                    sizes = replicate (nat (pcount * tlen)) (Num 0),
                    trailPositions = [],
                    trailIndex = Some 0, particleCount = pcount, trailLength = tlen,
                    colorStart = cstart, colorEnd = cend,
                    currentAttractor = f, currentParams = params f,
                    geometryDisposed = False, materialDisposed = False \<rparr>,
                  k + 3 * nat pcount)"
proof -
  note al = assms(2) allocates_parts(1) [OF assms(2)]
  moreover from assms(1) have "nat tlen = 0" by simp
  ultimately show ?thesis
    using assms(1)
    by (simp add: construct_def new_Float32Array_ok Let_def initializeParticles_empty)
qed

lemma update_degenerate:
  assumes "degenerate e" "update rs speed (e, k) = Inr (e', k')"
  shows "degenerate e'"
proof -
  from assms(1) have T: "trailLength e \<le> 0" and tp: "trailPositions e = []"
    by (simp_all add: degenerate_def)
  have n: "\<not> 0 < particleCount e"
  proof
    assume "0 < particleCount e"
    with assms(2) show False
      by (simp add: update_def Let_def tp slot_index_def split: option.splits)
  qed
  let ?nx = "js_rem (idx_add (idx_add (trailIndex e) (trailLength e)) (- 1)) (trailLength e)"
  from assms(2) n T have "e' = e\<lparr>trailIndex := ?nx\<rparr>"
    by (simp add: update_def Let_def updateBuffers_empty)
  with assms(1) show ?thesis by (simp add: degenerate_def)
qed

lemma setAttractor_empty:
  assumes "trailLength e \<le> 0"
  shows "setAttractor rs f (e, k)
           = Inr (e\<lparr>currentAttractor := f, currentParams := params f\<rparr>,
                  k + 3 * nat (particleCount e))"
  using assms by (simp add: setAttractor_def initializeParticles_empty)

lemma reachable_degenerate:
  assumes "reachable rs s" "trailLength (fst s) \<le> 0"
  shows "degenerate (fst s)"
  using assms
proof (induction rule: reachable.induct)
  case (r_construct attractor pcount tlen cstart cend k s)
  obtain e k' where s: "s = (e, k')" by (cases s)
  from r_construct(1) have d: "trailLength e = tlen" "0 \<le> pcount * tlen"
      "allocates rs (pcount * tlen * 3)"
    using construct_InrD [of rs attractor pcount tlen cstart cend k e k'] by (simp_all add: s)
  with r_construct(2) have T: "tlen \<le> 0" by (simp add: s)
  from r_construct(1) show ?case
    unfolding construct_empty [OF T d(3)] by (auto simp: s degenerate_def T d(2))
next
  case (r_update s speed s')
  obtain e k where s: "s = (e, k)" by (cases s)
  obtain e' k' where s': "s' = (e', k')" by (cases s')
  from r_update(2) have "trailLength e' = trailLength e"
    using update_InrD [of rs speed e k e' k'] by (simp add: s s')
  with r_update have "degenerate e" by (simp add: s s')
  from update_degenerate [OF this, of rs speed k e' k'] r_update(2) show ?case
    by (simp add: s s')
next
  case (r_setAttractor s attractor s')
  obtain e k where s: "s = (e, k)" by (cases s)
  obtain e' k' where s': "s' = (e', k')" by (cases s')
  from r_setAttractor(2) have T': "trailLength e' = trailLength e"
    using setAttractor_InrD [of rs attractor e k e' k'] by (simp add: s s')
  with r_setAttractor have d: "degenerate e" and T: "trailLength e \<le> 0" by (simp_all add: s s')
  from r_setAttractor(2) d show ?case
    unfolding s s' setAttractor_empty [OF T] by (auto simp: degenerate_def)
next
  case (r_setParams e k p)
  then show ?case by (simp add: setParams_def degenerate_def)
next
  case (r_setColors e k start end')
  then show ?case by (simp add: setColors_def degenerate_def)
next
  case (r_dispose e k)
  then show ?case by (simp add: dispose_def degenerate_def)
qed

lemma setAttractor_degenerate:
  assumes "reachable rs (e, k)" and "trailLength e \<le> 0"
  shows "\<exists>e1 e2 k'.
      setAttractor rs f (e, k) = Inr (e1, k')
      \<and> construct rs f (particleCount e) (trailLength e) (colorStart e) (colorEnd e) k
          = Inr (e2, k')
      \<and> e1 = e2\<lparr>trailIndex := trailIndex e, geometryDisposed := geometryDisposed e,
                materialDisposed := materialDisposed e\<rparr>
      \<and> getParticleCount e1 = getParticleCount e
      \<and> currentAttractor e1 = f \<and> currentParams e1 = params f
      \<and> trailPositions e1
          = replicate (nat (trailLength e))
              (fold (\<lambda>i r. store3 r i (sample_position rs (scale f) (k + 3 * i)))
                 [0..<nat (particleCount e)] (replicate (nat (particleCount e) * 3) (Num 0)))"
proof -
  from reachable_degenerate [OF assms(1)] assms(2) have d: "degenerate e" by simp
  from reachable_allocates [OF assms(1)]
  have al: "allocates rs (particleCount e * trailLength e * 3)" by simp
  note set = setAttractor_empty [OF assms(2), of rs f k]
  note con = construct_empty [OF assms(2) al, of f "colorStart e" "colorEnd e" k]
  show ?thesis
    unfolding set con using d assms(2)
    by (simp add: degenerate_def getParticleCount_def)
qed

section \<open>The claims about construction, lookup, disposal and the ring index\<close>





text \<open>
  C9 (as amended). Reading \<^verbatim>\<open>attractors[identifier]\<close> never fails. It yields the field
  descriptor for each of the eight identifiers, and \<^verbatim>\<open>undefined\<close> for every other
  identifier (case variants and partial matches included) that is not the name of a
  property inherited from \<^verbatim>\<open>Object.prototype\<close>.
\<close>

theorem attractors_get_total:
  "(\<exists>r. attractors_get identifier = Inr r)
   \<and> ((identifier, f) \<in> set attractors \<longrightarrow> attractors_get identifier = Inr (Own f))
   \<and> (identifier \<notin> set attractorNames \<and> identifier \<notin> set Object_prototype_keys
        \<longrightarrow> attractors_get identifier = Inr Undefined)"
proof (intro conjI impI)
  show "\<exists>r. attractors_get identifier = Inr r"
    by (simp add: attractors_get_def)
next
  assume "(identifier, f) \<in> set attractors"
  moreover have "distinct (map fst attractors)"
    by (simp add: attractors_def)
  ultimately have "map_of attractors identifier = Some f"
    by (rule map_of_is_SomeI [rotated])
  then show "attractors_get identifier = Inr (Own f)"
    by (simp add: attractors_get_def)
next
  assume a: "identifier \<notin> set attractorNames \<and> identifier \<notin> set Object_prototype_keys"
  then have "map_of attractors identifier = None"
    by (simp add: attractorNames_def map_of_eq_None_iff)
  with a show "attractors_get identifier = Inr Undefined"
    by (simp add: attractors_get_def)
qed

theorem attractors_get_total_witness:
  "(''chen'', chen) \<in> set attractors \<and> attractors_get ''chen'' = Inr (Own chen)
   \<and> ''lor'' \<notin> set attractorNames \<and> ''lor'' \<notin> set Object_prototype_keys
   \<and> attractors_get ''lor'' = Inr Undefined"
proof -
  have a: "(''chen'', chen) \<in> set attractors"
    by (simp add: attractors_def)
  have b: "''lor'' \<notin> set attractorNames \<and> ''lor'' \<notin> set Object_prototype_keys"
    by (simp add: attractorNames_def attractors_def Object_prototype_keys_def)
  from attractors_get_total [of "''chen''" chen] a
  have "attractors_get ''chen'' = Inr (Own chen)" by blast
  moreover from attractors_get_total [of "''lor''" chen] b
  have "attractors_get ''lor'' = Inr Undefined" by blast
  ultimately show ?thesis using a b by simp
qed

text \<open>The claim as stated fails for the case variant \<open>Lorenz\<close>, which is not one of the eight
  identifiers: the lookup returns \<^verbatim>\<open>undefined\<close> and raises nothing.\<close>

theorem attractors_get_counterexample:
  "''Lorenz'' \<notin> set attractorNames \<and> attractors_get ''Lorenz'' = Inr Undefined
   \<and> attractors_get ''Lorenz'' \<noteq> Inl UnknownFieldError"
  by (simp add: attractorNames_def attractors_def attractors_get_def Object_prototype_keys_def)

text \<open>
  C8 (as amended). \<^verbatim>\<open>dispose()\<close> disposes of the geometry and the material and changes no
  field of the engine, and no operation looks at whether it was called: after
  \<^verbatim>\<open>dispose()\<close> every operation does exactly what it does without it, and none raises
  \<open>UseAfterDisposeError\<close>.
\<close>

theorem dispose_changes_nothing:
  "getParticleCount (dispose e) = getParticleCount e
   \<and> update rs speed (dispose e, k) = map_sum id (map_prod dispose id) (update rs speed (e, k))
   \<and> setAttractor rs f (dispose e, k)
       = map_sum id (map_prod dispose id) (setAttractor rs f (e, k))
   \<and> setParams p (dispose e) = dispose (setParams p e)
   \<and> setColors cstart cend (dispose e) = dispose (setColors cstart cend e)
   \<and> dispose (dispose e) = dispose e
   \<and> update rs speed (dispose e, k) \<noteq> Inl UseAfterDisposeError
   \<and> setAttractor rs f (dispose e, k) \<noteq> Inl UseAfterDisposeError"
proof -
  have "update rs speed (dispose e, k) \<noteq> Inl UseAfterDisposeError"
    using update_errors [of rs speed "(dispose e, k)" UseAfterDisposeError] by auto
  moreover have "setAttractor rs f (dispose e, k) \<noteq> Inl UseAfterDisposeError"
    using setAttractor_errors [of rs f "(dispose e, k)" UseAfterDisposeError] by auto
  moreover have "getParticleCount (dispose e) = getParticleCount e"
    "setParams p (dispose e) = dispose (setParams p e)"
    "setColors cstart cend (dispose e) = dispose (setColors cstart cend e)"
    "dispose (dispose e) = dispose e"
    by (simp_all add: getParticleCount_def setParams_def setColors_def dispose_def)
  ultimately show ?thesis
    by (simp add: dispose_update dispose_setAttractor)
qed

text \<open>The claim as stated fails on a freshly constructed engine of one particle and one
  trail slot: after \<^verbatim>\<open>dispose()\<close>, \<^verbatim>\<open>update\<close> returns normally and the point count is
  still answered.\<close>

theorem use_after_dispose_counterexample:
  "\<not> isl (update (rs_const (1 / 2)) (Num 1)
            (dispose (fst (projr (construct (rs_const (1 / 2)) lorenz 1 1 white black 0))), 3))
   \<and> getParticleCount
        (dispose (fst (projr (construct (rs_const (1 / 2)) lorenz 1 1 white black 0)))) = 1"
proof -
  from construct_wf [of 1 1 "rs_const (1 / 2)" lorenz white black 0]
  obtain e k' where c: "construct (rs_const (1 / 2)) lorenz 1 1 white black 0 = Inr (e, k')"
    and wf: "wf e" and i: "trailIndex e = Some 0"
    and n: "particleCount e = 1" "trailLength e = 1"
    by (auto simp: allocates_rs_const)
  have "wf (dispose e)" "trailIndex (dispose e) = Some 0"
    using wf i by (simp_all add: wf_def dispose_def)
  from update_wf [OF this, of "rs_const (1 / 2)" "Num 1" 3]
  have "\<not> isl (update (rs_const (1 / 2)) (Num 1) (dispose e, 3))" by auto
  moreover have "getParticleCount (dispose e) = 1"
    using n by (simp add: getParticleCount_def dispose_def)
  ultimately show ?thesis by (simp add: c)
qed

text \<open>
  C10 (as amended). The shared ring index stays inside the ring in every reachable state of an engine
  with at least one trail slot: construction sets it to \<open>0\<close>; \<^verbatim>\<open>setAttractor\<close>,
  \<^verbatim>\<open>setParams\<close> and \<^verbatim>\<open>setColors\<close> leave it as it is; every \<^verbatim>\<open>update\<close> returns normally and
  maps it to \<open>(trailIndex + trailLength - 1) mod trailLength\<close>; and \<open>trailLength\<close> consecutive
  calls of \<^verbatim>\<open>update\<close> bring it back to where it was.
\<close>

theorem trailIndex_rotates:
  "(construct rs f pcount tlen cstart cend j = Inr (e0, k0) \<longrightarrow> trailIndex e0 = Some 0)
   \<and> (setAttractor rs f (e, k) = Inr (e1, k1) \<longrightarrow> trailIndex e1 = trailIndex e)
   \<and> trailIndex (setParams p e) = trailIndex e
   \<and> trailIndex (setColors cstart cend e) = trailIndex e
   \<and> (reachable rs (e, k) \<and> 1 \<le> trailLength e \<longrightarrow>
        (\<exists>i. trailIndex e = Some i \<and> 0 \<le> i \<and> i < trailLength e
           \<and> (\<exists>e' k'. update rs speed (e, k) = Inr (e', k')
                 \<and> trailIndex e' = Some ((i + trailLength e - 1) mod trailLength e))
           \<and> (length speeds = nat (trailLength e) \<longrightarrow>
                 (\<exists>e' k'. updates rs speeds (e, k) = Inr (e', k') \<and> trailIndex e' = Some i))))"
proof (intro conjI impI)
  assume "construct rs f pcount tlen cstart cend j = Inr (e0, k0)"
  then show "trailIndex e0 = Some 0"
    by (simp add: construct_InrD)
next
  assume "setAttractor rs f (e, k) = Inr (e1, k1)"
  then show "trailIndex e1 = trailIndex e"
    by (simp add: setAttractor_InrD)
next
  show "trailIndex (setParams p e) = trailIndex e"
    by (simp add: setParams_def)
  show "trailIndex (setColors cstart cend e) = trailIndex e"
    by (simp add: setColors_def)
next
  assume r: "reachable rs (e, k) \<and> 1 \<le> trailLength e"
  then have wf: "wf e"
    using reachable_wf [of rs "(e, k)"] by simp
  then obtain i where i: "trailIndex e = Some i" "0 \<le> i" "i < trailLength e"
    by (auto simp: wf_def)
  have u: "\<exists>e' k'. update rs speed (e, k) = Inr (e', k')
             \<and> trailIndex e' = Some ((i + trailLength e - 1) mod trailLength e)"
    using update_wf [OF wf i(1), of rs speed k] by blast
  have again: "\<exists>e' k'. updates rs speeds (e, k) = Inr (e', k') \<and> trailIndex e' = Some i"
    if len: "length speeds = nat (trailLength e)"
  proof -
    from r len have "int (length speeds) = trailLength e" by simp
    then have "(i + int (length speeds) * (trailLength e - 1)) mod trailLength e
                 = (i + trailLength e * (trailLength e - 1)) mod trailLength e"
      by simp
    also have "\<dots> = i mod trailLength e"
      by simp
    also have "\<dots> = i"
      using i by simp
    finally show ?thesis
      using updates_wf [OF wf i(1), of rs speeds k] by auto
  qed
  show "\<exists>i. trailIndex e = Some i \<and> 0 \<le> i \<and> i < trailLength e
           \<and> (\<exists>e' k'. update rs speed (e, k) = Inr (e', k')
                 \<and> trailIndex e' = Some ((i + trailLength e - 1) mod trailLength e))
           \<and> (length speeds = nat (trailLength e) \<longrightarrow>
                 (\<exists>e' k'. updates rs speeds (e, k) = Inr (e', k') \<and> trailIndex e' = Some i))"
    using i u again by blast
qed

theorem trailIndex_rotates_witness:
  "\<not> isl (construct (rs_const (1 / 2)) lorenz 4 3 white black 0)
   \<and> trailIndex (fst (projr (construct (rs_const (1 / 2)) lorenz 4 3 white black 0))) = Some 0
   \<and> trailIndex (fst (projr (update (rs_const (1 / 2)) (Num 1)
        (projr (construct (rs_const (1 / 2)) lorenz 4 3 white black 0))))) = Some 2
   \<and> trailIndex (fst (projr (updates (rs_const (1 / 2)) [Num 1, Num 1, Num 1]
        (projr (construct (rs_const (1 / 2)) lorenz 4 3 white black 0))))) = Some 0"
proof -
  from construct_wf [of 4 3 "rs_const (1 / 2)" lorenz white black 0]
  obtain e k where c: "construct (rs_const (1 / 2)) lorenz 4 3 white black 0 = Inr (e, k)"
    and T: "trailLength e = 3"
    by (auto simp: allocates_rs_const)
  have r: "reachable (rs_const (1 / 2)) (e, k)"
    using c by (rule r_construct)
  note t = trailIndex_rotates [where rs = "rs_const (1 / 2)" and f = lorenz and pcount = 4
      and tlen = 3 and cstart = white and cend = black and j = 0 and k = k and ?e0.0 = e
      and ?k0.0 = k
      and e = e and speed = "Num 1" and speeds = "[Num 1, Num 1, Num 1]"]
  from t c have i0: "trailIndex e = Some 0" by blast
  note rest = t [THEN conjunct2, THEN conjunct2, THEN conjunct2, THEN conjunct2, THEN mp,
      OF conjI, OF r]
  have "1 \<le> trailLength e" by (simp add: T)
  from rest [OF this] obtain i where i: "trailIndex e = Some i"
    and u: "\<exists>e' k'. update (rs_const (1 / 2)) (Num 1) (e, k) = Inr (e', k')
              \<and> trailIndex e' = Some ((i + trailLength e - 1) mod trailLength e)"
    and us: "length [Num 1, Num 1, Num 1 :: jsnum] = nat (trailLength e) \<longrightarrow>
              (\<exists>e' k'. updates (rs_const (1 / 2)) [Num 1, Num 1, Num 1] (e, k) = Inr (e', k')
                 \<and> trailIndex e' = Some i)"
    by blast
  from i i0 have i: "i = 0" by simp
  from u obtain e' k' where
    u': "update (rs_const (1 / 2)) (Num 1) (e, k) = Inr (e', k')" "trailIndex e' = Some 2"
    by (auto simp: i T)
  have "length [Num 1, Num 1, Num 1 :: jsnum] = nat (trailLength e)" by (simp add: T)
  with us obtain e'' k'' where
    us': "updates (rs_const (1 / 2)) [Num 1, Num 1, Num 1] (e, k) = Inr (e'', k'')"
      "trailIndex e'' = Some 0"
    unfolding i by blast
  show ?thesis
    by (simp add: c i0 u' us' del: updates.simps)
qed

text \<open>The claim as stated fails on the engines without a trail slot, which the constructor
  builds as well. For sizes \<open>0\<close> and \<open>0\<close> the index \<open>0\<close> is not below \<open>trailLength = 0\<close>, and one
  \<^verbatim>\<open>update\<close> makes it \<open>(0 + 0 - 1) % 0\<close>, which is \<^verbatim>\<open>NaN\<close>; for sizes \<open>-1\<close> and \<open>-2\<close> one
  \<^verbatim>\<open>update\<close> makes it \<open>(0 - 2 - 1) % -2 = -1\<close>.\<close>

theorem trailIndex_leaves_ring_counterexample:
  "construct (rs_const (1 / 2)) lorenz 0 0 white black 0 = Inr (engine_0_0, 0)
   \<and> reachable (rs_const (1 / 2)) (engine_0_0, 0)
   \<and> trailIndex engine_0_0 = Some 0 \<and> trailLength engine_0_0 = 0
   \<and> update (rs_const (1 / 2)) (Num 1) (engine_0_0, 0)
       = Inr (engine_0_0\<lparr>trailIndex := None\<rparr>, 0)
   \<and> \<not> isl (construct (rs_const (1 / 2)) lorenz (- 1) (- 2) white black 0)
   \<and> trailIndex (fst (projr (update (rs_const (1 / 2)) (Num 1)
        (projr (construct (rs_const (1 / 2)) lorenz (- 1) (- 2) white black 0)))))
       = Some (- 1)"
proof -
  have c: "construct (rs_const (1 / 2)) lorenz 0 0 white black 0 = Inr (engine_0_0, 0)"
    by (simp add: engine_0_0_def construct_def new_Float32Array_def allocates_rs_const
          initializeParticles_def initializeParticles_loop_def updateBuffers_def
          updateBuffers_loop_def)
  then have r: "reachable (rs_const (1 / 2)) (engine_0_0, 0)"
    by (rule r_construct)
  have u: "update (rs_const (1 / 2)) (Num 1) (engine_0_0, 0)
             = Inr (engine_0_0\<lparr>trailIndex := None\<rparr>, 0)"
    by (simp add: engine_0_0_def update_def Let_def js_rem_def idx_add_def updateBuffers_def
          updateBuffers_loop_def)
  have al: "allocates (rs_const (1 / 2)) ((- 1) * (- 2) * 3)"
    by (simp add: allocates_rs_const)
  note c2 = construct_empty [of "- 2" "rs_const (1 / 2)" "- 1" lorenz white black 0, OF _ al]
  have u2: "trailIndex (fst (projr (update (rs_const (1 / 2)) (Num 1)
        (projr (construct (rs_const (1 / 2)) lorenz (- 1) (- 2) white black 0))))) = Some (- 1)"
    by (simp add: c2 update_def Let_def js_rem_def idx_add_def updateBuffers_empty)
  from c r u u2 show ?thesis
    by (simp add: c2) (simp add: engine_0_0_def)
qed

section \<open>The claims about the repacked buffer\<close>

lemma overflow_large: "1000000 < dbl_overflow" "1000000 < f32_overflow"
  by (simp_all add: dbl_overflow_def f32_overflow_def)

lemma d64_small: "\<bar>x\<bar> \<le> 1000000 \<Longrightarrow> d64 x = Num x"
  using overflow_large(1) by (auto simp: d64_def)

lemma f32_small: "\<bar>x\<bar> \<le> 1000000 \<Longrightarrow> f32 (Num x) = Num x"
  using overflow_large(2) by auto

lemma age_fraction:
  assumes "1 \<le> T" "t < nat T"
  shows "0 \<le> real t / real_of_int T" "real t / real_of_int T < 1"
  using assms by simp_all

lemma size_value_wf:
  assumes "1 \<le> trailLength e" "t < nat (trailLength e)"
  shows "size_value e t = Num (5 / 2 * (1 - 7 / 10 * (real t / real_of_int (trailLength e))))"
proof -
  let ?a = "real t / real_of_int (trailLength e)"
  from age_fraction [OF assms] have a: "0 \<le> ?a" "?a < 1" .
  have T: "real_of_int (trailLength e) \<noteq> 0" using assms by simp
  have "trailFactor e t = Num ?a"
    using a T by (simp add: trailFactor_def d64_small)
  moreover have "jmul (Num ?a) (Num (7 / 10)) = Num (?a * (7 / 10))"
    using a by (simp add: d64_small)
  moreover have "jsub (Num 1) (Num (?a * (7 / 10))) = Num (1 - ?a * (7 / 10))"
    using a by (simp add: jsub_def d64_small)
  moreover have "jmul (Num (25 / 10)) (Num (1 - ?a * (7 / 10)))
                   = Num (25 / 10 * (1 - ?a * (7 / 10)))"
    using a by (simp add: d64_small)
  moreover have "f32 (Num (25 / 10 * (1 - ?a * (7 / 10)))) = Num (25 / 10 * (1 - ?a * (7 / 10)))"
    using a by (intro f32_small) simp
  ultimately show ?thesis
    by (simp add: size_value_def mult.commute)
qed

text \<open>
  C7 (as amended). In every repack of an engine with at least one trail slot, the size
  written for particle \<open>i\<close> at trail position \<open>t\<close> (the slot \<open>t\<close> places after the ring index;
  \<open>t = 0\<close> is the newest slot after an update) is \<open>2.5 * (1 - 0.7 * t / trailLength)\<close>: the
  maximum \<open>2.5\<close> at \<open>t = 0\<close>, shrinking linearly with \<open>t\<close>, and at every slot, the oldest one
  \<open>t = trailLength - 1\<close> included, strictly more than 30% of the maximum.
\<close>

theorem point_sizes:
  assumes "wf e" and "updateBuffers e = Inr e'"
    and "i < nat (particleCount e)" and "t < nat (trailLength e)"
  shows "sizes e' ! (i * nat (trailLength e) + t)
           = Num (5 / 2 * (1 - 7 / 10 * (real t / real_of_int (trailLength e))))
         \<and> 3 / 10 * (5 / 2) < 5 / 2 * (1 - 7 / 10 * (real t / real_of_int (trailLength e)))
         \<and> 5 / 2 * (1 - 7 / 10 * (real t / real_of_int (trailLength e))) \<le> 5 / 2
         \<and> (t = 0 \<longrightarrow> sizes e' ! (i * nat (trailLength e) + t) = Num (5 / 2))"
proof -
  from assms(1) have T: "1 \<le> trailLength e"
    and len: "length (sizes e) = nat (particleCount e) * nat (trailLength e)"
    by (simp_all add: wf_def)
  from assms(2) have e': "e' = updateBuffers_loop e"
    by (rule updateBuffers_InrD)
  have v: "sizes e' ! (i * nat (trailLength e) + t)
             = Num (5 / 2 * (1 - 7 / 10 * (real t / real_of_int (trailLength e))))"
    unfolding e'
    by (simp add: updateBuffers_loop_sizes [OF assms(3,4) len] size_value_wf [OF T assms(4)])
  from age_fraction [OF T assms(4)]
  have b: "3 / 10 * (5 / 2) < 5 / 2 * (1 - 7 / 10 * (real t / real_of_int (trailLength e)))"
    "5 / 2 * (1 - 7 / 10 * (real t / real_of_int (trailLength e))) \<le> 5 / 2"
    by simp_all
  have "sizes e' ! (i * nat (trailLength e) + t) = Num (5 / 2)" if "t = 0"
    using v that by simp
  with v b show ?thesis by blast
qed

lemma lerp_unit:
  assumes "0 \<le> a" "a \<le> 1" "0 \<le> b" "b \<le> 1" "0 \<le> u" "u < (1 :: real)"
  shows "f32 (lerp (Num a) (Num b) (Num u)) = Num (a + (b - a) * u)"
proof -
  have 1: "\<bar>b - a\<bar> \<le> 1" using assms by simp
  then have 2: "\<bar>(b - a) * u\<bar> \<le> 1"
    using assms by (simp add: abs_mult mult_le_one)
  then have 3: "\<bar>a + (b - a) * u\<bar> \<le> 2"
    using assms by simp
  have "lerp (Num a) (Num b) (Num u) = Num (a + (b - a) * u)"
    using 1 2 3 by (simp add: lerp_def jsub_def d64_small)
  then show ?thesis
    using 3 by (simp add: f32_small del: f32.simps)
qed

lemma color_value_unit:
  assumes "unit_color (colorStart e)" "unit_color (colorEnd e)"
    and "1 \<le> trailLength e" "t < nat (trailLength e)"
  shows "color_value e t c
           = Num (num_val (component c (colorEnd e))
                  + (num_val (component c (colorStart e)) - num_val (component c (colorEnd e)))
                    * (real t / real_of_int (trailLength e)))"
proof -
  from assms(1) obtain b where b: "component c (colorStart e) = Num b" "0 \<le> b" "b \<le> 1"
    by (auto simp: unit_color_def)
  from assms(2) obtain a where a: "component c (colorEnd e) = Num a" "0 \<le> a" "a \<le> 1"
    by (auto simp: unit_color_def)
  let ?u = "real t / real_of_int (trailLength e)"
  from age_fraction [OF assms(3,4)] have u: "0 \<le> ?u" "?u < 1" .
  have "real_of_int (trailLength e) \<noteq> 0" using assms(3) by simp
  then have "jdiv (Num (real t)) (Num (real_of_int (trailLength e))) = Num ?u"
    using u by (simp add: d64_small)
  then show ?thesis
    using lerp_unit [OF a(2,3) b(2,3) u] by (simp add: color_value_eq a b del: f32.simps)
qed

text \<open>
  C2 (as amended). After each \<^verbatim>\<open>update\<close> the repacked buffer lists, for every particle, its
  \<open>trailLength\<close> ring slots by walking the ring from the new \<open>trailIndex\<close>, slot \<open>t\<close> of
  particle \<open>i\<close> at flat offset \<open>(i * trailLength + t) * 3\<close>, and this walk runs from the
  newest slot to the oldest: \<open>t = 0\<close> is the slot this update has just written, and every
  later \<open>t\<close> is the slot that stood at \<open>t - 1\<close> before the update. Each written position is the
  raw ring position times the field's \<open>scale\<close>, narrowed to 32 bits. The colour written for
  slot \<open>t\<close> is \<open>colorEnd + (colorStart - colorEnd) * t / trailLength\<close>: \<open>colorEnd\<close> at the newest
  slot, moving towards \<open>colorStart\<close> with age.
\<close>

theorem repack_after_update:
  assumes "reachable rs (e, k)" and "1 \<le> trailLength e" and "trailIndex e = Some j"
    and "update rs speed (e, k) = Inr (e', k')"
    and "i < nat (particleCount e)" and "t < nat (trailLength e)" and "c < 3"
  shows "trailIndex e' = Some ((j + trailLength e - 1) mod trailLength e)
    \<and> positions e' ! ((i * nat (trailLength e) + t) * 3 + c)
        = f32 (jmul (trailPositions e'
                       ! nat (((j + trailLength e - 1) mod trailLength e + int t)
                                mod trailLength e)
                       ! (i * 3 + c))
                    (scale (currentAttractor e)))
    \<and> colors e' ! ((i * nat (trailLength e) + t) * 3 + c)
        = f32 (lerp (component c (colorEnd e)) (component c (colorStart e))
                 (jdiv (Num (real t)) (Num (real_of_int (trailLength e)))))
    \<and> (unit_color (colorStart e) \<and> unit_color (colorEnd e) \<longrightarrow>
         colors e' ! ((i * nat (trailLength e) + t) * 3 + c)
           = Num (num_val (component c (colorEnd e))
                  + (num_val (component c (colorStart e)) - num_val (component c (colorEnd e)))
                    * (real t / real_of_int (trailLength e))))
    \<and> trailPositions e' ! nat ((j + trailLength e - 1) mod trailLength e) ! (i * 3 + c)
        = f32 (coord c (stored_next rs (currentAttractor e) (currentParams e)
                          (jmul (dt (currentAttractor e)) speed) (trailPositions e ! nat j) k i))
    \<and> (0 < t \<longrightarrow>
         trailPositions e'
           ! nat (((j + trailLength e - 1) mod trailLength e + int t) mod trailLength e)
         = trailPositions e ! nat ((j + int (t - 1)) mod trailLength e))"
proof -
  let ?T = "trailLength e"
  let ?nx = "(j + ?T - 1) mod ?T"
  let ?V = "stored_next rs (currentAttractor e) (currentParams e)
              (jmul (dt (currentAttractor e)) speed) (trailPositions e ! nat j) k"
  let ?e = "e\<lparr>trailPositions := trailPositions e', trailIndex := Some ?nx\<rparr>"
  from assms(1,2) have wf: "wf e"
    using reachable_wf [of rs "(e, k)"] by simp
  from wf assms(3) have j: "0 \<le> j" "j < ?T" and T: "0 < ?T" by (auto simp: wf_def)
  have nx: "0 \<le> ?nx" "?nx < ?T" "nat ?nx < nat ?T" using T by simp_all
  note ring = update_ring [OF wf assms(3,4)]
  have tp: "trailPositions e'
              = (trailPositions e)[nat ?nx :=
                   fold (\<lambda>i r. store3 r i (?V i)) [0..<nat (particleCount e)]
                     (trailPositions e ! nat ?nx)]"
    by (rule ring(1))
  have e': "e' = updateBuffers_loop ?e"
    by (rule ring(3))
  have shape: "map length (trailPositions e') = map length (trailPositions e)"
    unfolding tp by (rule map_length_update_same) simp
  have wf': "wf ?e"
    using wf shape nx by (intro wf_set_ring) simp_all
  have n': "i < nat (particleCount ?e)" "t < nat (trailLength ?e)"
    using assms(5,6) by simp_all
  have lens: "length (positions ?e) = nat (particleCount ?e) * nat (trailLength ?e) * 3"
    "length (colors ?e) = nat (particleCount ?e) * nat (trailLength ?e) * 3"
    using wf' by (simp_all add: wf_def)
  have ti: "trailIndex e' = Some ?nx"
    by (subst e') (simp add: updateBuffers_loop_fields)
  have pos: "positions e' ! ((i * nat ?T + t) * 3 + c)
        = f32 (jmul (trailPositions e' ! nat ((?nx + int t) mod ?T) ! (i * 3 + c))
                    (scale (currentAttractor e)))"
    using updateBuffers_loop_positions [OF n' assms(7) lens(1)]
      pos_value_wf [OF wf' _ n'(1) assms(7), of ?nx t]
    by (subst e') simp
  have col: "colors e' ! ((i * nat ?T + t) * 3 + c) = color_value ?e t c"
    using updateBuffers_loop_colors [OF n' assms(7) lens(2)]
    by (subst e') simp
  have col1: "colors e' ! ((i * nat ?T + t) * 3 + c)
        = f32 (lerp (component c (colorEnd e)) (component c (colorStart e))
                 (jdiv (Num (real t)) (Num (real_of_int ?T))))"
    unfolding col by (simp add: color_value_eq)
  have col2: "colors e' ! ((i * nat ?T + t) * 3 + c)
           = Num (num_val (component c (colorEnd e))
                  + (num_val (component c (colorStart e)) - num_val (component c (colorEnd e)))
                    * (real t / real_of_int ?T))"
    if "unit_color (colorStart e) \<and> unit_color (colorEnd e)"
    unfolding col using that assms(2,6) color_value_unit [of ?e t c] by simp
  have row: "i * 3 + c < length (trailPositions e ! nat ?nx)"
    using assms(5,7) by (simp add: wf_row_length [OF wf nx(3)])
  have inr: "nat ?nx < length (trailPositions e)"
    using nx by (simp add: wf_ring_length [OF wf])
  have newest: "trailPositions e' ! nat ?nx ! (i * 3 + c) = f32 (coord c (?V i))"
    unfolding tp using inr fold_store3_hit [OF assms(5,7) row, of ?V] by simp
  have older: "trailPositions e' ! nat ((?nx + int t) mod ?T)
                 = trailPositions e ! nat ((j + int (t - 1)) mod ?T)"
    if "0 < t"
  proof -
    note o = older_slot [OF T j that assms(6)]
    from o(2) have "trailPositions e' ! nat ((?nx + int t) mod ?T)
                      = trailPositions e ! nat ((?nx + int t) mod ?T)"
      unfolding tp by simp
    then show ?thesis by (simp only: o(1))
  qed
  from ti pos col1 col2 newest older show ?thesis by blast
qed

section \<open>Evaluated runs\<close>

lemmas eval_defs =
  construct_def new_Float32Array_def allocates_rs_const initializeParticles_def initializeParticles_loop_def
  ip_particle_def ip_write_def Math_random_def random_coord_def updateBuffers_def
  updateBuffers_loop_def ub_write_def ub_trailIdx_def ring_read_def slot_index_def js_rem_def
  idx_add_def f32_get_def f32_set_def lerpColors_def lerp_def update_def update_loop_def
  update_particle_def lorenz_def lorenz_step_def euler_def pget_def jsub_def d64_small
  f32_small draw_rs_const white_def black_def Let_def eval_nat_numeral

lemma run_construct_1_2:
  "construct (rs_const (1 / 2)) lorenz 1 2 white black 0 = Inr (engine_1_2, 3)"
  unfolding engine_1_2_def by (simp add: eval_defs del: f32.simps(1))

lemma run_update_1_2:
  "update (rs_const (1 / 2)) (Num 1) (engine_1_2, 3) = Inr (engine_1_2_updated, 3)"
  unfolding engine_1_2_def engine_1_2_updated_def by (simp add: eval_defs del: f32.simps(1))

lemma wf_engine_1_2: "wf engine_1_2"
  by (simp add: wf_def engine_1_2_def eval_nat_numeral)

lemma repack_engine_1_2: "updateBuffers engine_1_2 = Inr engine_1_2"
  unfolding engine_1_2_def by (simp add: eval_defs del: f32.simps(1))

theorem repack_after_update_witness:
  "construct (rs_const (1 / 2)) lorenz 1 2 white black 0 = Inr (engine_1_2, 3)
   \<and> update (rs_const (1 / 2)) (Num 1) (engine_1_2, 3) = Inr (engine_1_2_updated, 3)
   \<and> trailIndex engine_1_2_updated = Some 1
   \<and> positions engine_1_2_updated ! 5 = Num (75 / 2)
   \<and> colors engine_1_2_updated ! 5 = Num (1 / 2)
   \<and> trailPositions engine_1_2_updated ! 1 ! 2 = Num (74 / 3)
   \<and> trailPositions engine_1_2_updated ! 0 = trailPositions engine_1_2 ! 0"
proof -
  have r: "reachable (rs_const (1 / 2)) (engine_1_2, 3)"
    using run_construct_1_2 by (rule r_construct)
  have h: "1 \<le> trailLength engine_1_2" "trailIndex engine_1_2 = Some 0"
    "(0 :: nat) < nat (particleCount engine_1_2)" "(1 :: nat) < nat (trailLength engine_1_2)"
    "(2 :: nat) < 3"
    by (simp_all add: engine_1_2_def)
  have uc: "unit_color (colorStart engine_1_2) \<and> unit_color (colorEnd engine_1_2)"
    by (simp add: engine_1_2_def unit_color_def component_def white_def black_def)
  note t = repack_after_update [OF r h(1,2) run_update_1_2 h(3,4,5)]
  have s: "stored_next (rs_const (1 / 2)) lorenz (params lorenz) (jmul (dt lorenz) (Num 1))
             [Num 0, Num 0, Num 25] 3 0 = (Num 0, Num 0, Num (74 / 3))"
    by (simp add: stored_next_def particle_next_def all_finite_def
          eval_defs del: f32.simps(1))
  from t uc s show ?thesis
    by (simp add: run_construct_1_2 run_update_1_2)
       (simp add: engine_1_2_def engine_1_2_updated_def lorenz_def component_def
          white_def black_def coord_def f32_small d64_small del: f32.simps(1))
qed

text \<open>The claim as stated fails on this run. The update writes ring slot 1, the new
  \<open>trailIndex\<close>; the walk starts there, so the buffer begins with the newest position
  (\<open>74/3 * 1.5 = 37\<close>) and ends with the oldest (\<open>25 * 1.5\<close>), and the newest slot is given
  \<open>colorEnd\<close> (black), not \<open>colorStart\<close>.\<close>

theorem repack_order_counterexample:
  "update (rs_const (1 / 2)) (Num 1) (engine_1_2, 3) = Inr (engine_1_2_updated, 3)
   \<and> trailIndex engine_1_2_updated = Some 1
   \<and> trailPositions engine_1_2 = [[Num 0, Num 0, Num 25], [Num 0, Num 0, Num 25]]
   \<and> trailPositions engine_1_2_updated = [[Num 0, Num 0, Num 25], [Num 0, Num 0, Num (74 / 3)]]
   \<and> positions engine_1_2_updated = [Num 0, Num 0, Num 37, Num 0, Num 0, Num (75 / 2)]
   \<and> colors engine_1_2_updated = [Num 0, Num 0, Num 0, Num (1 / 2), Num (1 / 2), Num (1 / 2)]
   \<and> colorEnd engine_1_2_updated = Color (Num 0) (Num 0) (Num 0)
   \<and> colorStart engine_1_2_updated = Color (Num 1) (Num 1) (Num 1)"
  by (simp add: run_update_1_2) (simp add: engine_1_2_def engine_1_2_updated_def white_def black_def)

theorem point_sizes_witness:
  "wf engine_1_2 \<and> updateBuffers engine_1_2 = Inr engine_1_2
   \<and> sizes engine_1_2 ! 0 = Num (5 / 2) \<and> sizes engine_1_2 ! 1 = Num (13 / 8)"
proof -
  have h: "(0 :: nat) < nat (particleCount engine_1_2)"
    "(0 :: nat) < nat (trailLength engine_1_2)" "(1 :: nat) < nat (trailLength engine_1_2)"
    by (simp_all add: engine_1_2_def)
  note t0 = point_sizes [OF wf_engine_1_2 repack_engine_1_2 h(1) h(2)]
  note t1 = point_sizes [OF wf_engine_1_2 repack_engine_1_2 h(1) h(3)]
  have "trailLength engine_1_2 = 2" by (simp add: engine_1_2_def)
  with t0 t1 have "sizes engine_1_2 ! 0 = Num (5 / 2)" "sizes engine_1_2 ! 1 = Num (13 / 8)"
    by simp_all
  with wf_engine_1_2 repack_engine_1_2 show ?thesis by simp
qed

text \<open>The claim as stated fails on the same run: after the update the oldest of the two
  slots has size \<open>13/8\<close>, 65% of the maximum \<open>5/2\<close> and not 30%.\<close>

theorem oldest_size_counterexample:
  "update (rs_const (1 / 2)) (Num 1) (engine_1_2, 3) = Inr (engine_1_2_updated, 3)
   \<and> sizes engine_1_2_updated = [Num (5 / 2), Num (13 / 8)]
   \<and> Num (13 / 8) \<noteq> Num (3 / 10 * (5 / 2))"
  by (simp add: run_update_1_2) (simp add: engine_1_2_updated_def)

section \<open>setAttractor against the constructor\<close>

lemma flat3_decompose:
  assumes "q < n * T * 3"
  obtains i t c where "i < n" "t < T" "c < (3 :: nat)" "q = (i * T + t) * 3 + c"
proof -
  let ?m = "q div 3"
  have m: "?m < n * T" using assms by (simp add: less_mult_imp_div_less)
  then have T: "0 < T" by (cases T) simp_all
  have i: "?m div T < n" using m by (simp add: less_mult_imp_div_less mult.commute)
  have t: "?m mod T < T" using T by simp
  have "q = (?m div T * T + ?m mod T) * 3 + q mod 3" by simp
  with i t show ?thesis by (intro that [of "?m div T" "?m mod T" "q mod 3"]) simp_all
qed

lemma flat_decompose:
  assumes "q < n * T"
  obtains i t where "i < n" "t < (T :: nat)" "q = i * T + t"
proof -
  from assms have T: "0 < T" by (cases T) simp_all
  have i: "q div T < n" using assms by (simp add: less_mult_imp_div_less mult.commute)
  have "q = q div T * T + q mod T" by simp
  with i T show ?thesis by (intro that [of "q div T" "q mod T"]) simp_all
qed

text \<open>The repack is determined by the values it writes, whatever the buffers held.\<close>

lemma updateBuffers_loop_cong:
  assumes "wf a" "wf b"
    and n: "particleCount a = particleCount b" and T: "trailLength a = trailLength b"
    and pv: "\<And>i t c. i < nat (particleCount a) \<Longrightarrow> t < nat (trailLength a) \<Longrightarrow> c < 3
               \<Longrightarrow> pos_value a i t c = pos_value b i t c"
    and cv: "\<And>t c. color_value a t c = color_value b t c"
    and sv: "\<And>t. size_value a t = size_value b t"
  shows "positions (updateBuffers_loop a) = positions (updateBuffers_loop b)"
    and "colors (updateBuffers_loop a) = colors (updateBuffers_loop b)"
    and "sizes (updateBuffers_loop a) = sizes (updateBuffers_loop b)"
proof -
  let ?n = "nat (particleCount a)" and ?T = "nat (trailLength a)"
  from assms(1,2) n T have la: "length (positions a) = ?n * ?T * 3"
    "length (colors a) = ?n * ?T * 3" "length (sizes a) = ?n * ?T"
    and lb: "length (positions b) = nat (particleCount b) * nat (trailLength b) * 3"
    "length (colors b) = nat (particleCount b) * nat (trailLength b) * 3"
    "length (sizes b) = nat (particleCount b) * nat (trailLength b)"
    by (simp_all add: wf_def)
  show "positions (updateBuffers_loop a) = positions (updateBuffers_loop b)"
  proof (rule nth_equalityI)
    show "length (positions (updateBuffers_loop a)) = length (positions (updateBuffers_loop b))"
      using la lb n T by (simp add: updateBuffers_loop_lengths)
  next
    fix q assume "q < length (positions (updateBuffers_loop a))"
    then have "q < ?n * ?T * 3" by (simp add: updateBuffers_loop_lengths la)
    then obtain i t c where d: "i < ?n" "t < ?T" "c < 3" "q = (i * ?T + t) * 3 + c"
      by (rule flat3_decompose)
    from d n T have d': "i < nat (particleCount b)" "t < nat (trailLength b)" by simp_all
    show "positions (updateBuffers_loop a) ! q = positions (updateBuffers_loop b) ! q"
      using updateBuffers_loop_positions [OF d(1,2,3) la(1)]
        updateBuffers_loop_positions [OF d' d(3) lb(1)] pv [OF d(1,2,3)]
      by (simp add: d(4) T)
  qed
  show "colors (updateBuffers_loop a) = colors (updateBuffers_loop b)"
  proof (rule nth_equalityI)
    show "length (colors (updateBuffers_loop a)) = length (colors (updateBuffers_loop b))"
      using la lb n T by (simp add: updateBuffers_loop_lengths)
  next
    fix q assume "q < length (colors (updateBuffers_loop a))"
    then have "q < ?n * ?T * 3" by (simp add: updateBuffers_loop_lengths la)
    then obtain i t c where d: "i < ?n" "t < ?T" "c < 3" "q = (i * ?T + t) * 3 + c"
      by (rule flat3_decompose)
    from d n T have d': "i < nat (particleCount b)" "t < nat (trailLength b)" by simp_all
    show "colors (updateBuffers_loop a) ! q = colors (updateBuffers_loop b) ! q"
      using updateBuffers_loop_colors [OF d(1,2,3) la(2)]
        updateBuffers_loop_colors [OF d' d(3) lb(2)] cv [of t c]
      by (simp add: d(4) T)
  qed
  show "sizes (updateBuffers_loop a) = sizes (updateBuffers_loop b)"
  proof (rule nth_equalityI)
    show "length (sizes (updateBuffers_loop a)) = length (sizes (updateBuffers_loop b))"
      using la lb n T by (simp add: updateBuffers_loop_lengths)
  next
    fix q assume "q < length (sizes (updateBuffers_loop a))"
    then have "q < ?n * ?T" by (simp add: updateBuffers_loop_lengths la)
    then obtain i t where d: "i < ?n" "t < ?T" "q = i * ?T + t"
      by (rule flat_decompose)
    from d n T have d': "i < nat (particleCount b)" "t < nat (trailLength b)" by simp_all
    show "sizes (updateBuffers_loop a) ! q = sizes (updateBuffers_loop b) ! q"
      using updateBuffers_loop_sizes [OF d(1,2) la(3)]
        updateBuffers_loop_sizes [OF d' lb(3)] sv [of t]
      by (simp add: d(3) T)
  qed
qed

text \<open>The seeded ring: every slot is the same row of sampled positions.\<close>

lemma seeded_ring:
  assumes "wf e"
  shows "fst (initializeParticles_loop rs e k)
           = replicate (nat (trailLength e))
               (fold (\<lambda>i r. store3 r i
                        (sample_position rs (scale (currentAttractor e)) (k + 3 * i)))
                  [0..<nat (particleCount e)] (replicate (nat (particleCount e) * 3) (Num 0)))"
    and "snd (initializeParticles_loop rs e k) = k + 3 * nat (particleCount e)"
proof -
  let ?g = "fold (\<lambda>i r. store3 r i (sample_position rs (scale (currentAttractor e)) (k + 3 * i)))
              [0..<nat (particleCount e)]"
  let ?z = "replicate (nat (particleCount e) * 3) (Num 0)"
  note eq = initializeParticles_loop_eq [OF wf_ring_length [OF assms], of rs k]
  show "snd (initializeParticles_loop rs e k) = k + 3 * nat (particleCount e)"
    by (simp add: eq)
  have "map ?g (trailPositions e) = replicate (nat (trailLength e)) (?g ?z)"
  proof (rule nth_equalityI)
    show "length (map ?g (trailPositions e)) = length (replicate (nat (trailLength e)) (?g ?z))"
      by (simp add: wf_ring_length [OF assms])
  next
    fix s assume "s < length (map ?g (trailPositions e))"
    then have s: "s < nat (trailLength e)" by (simp add: wf_ring_length [OF assms])
    have "?g (trailPositions e ! s) = ?g ?z"
      by (rule seeded_row) (simp_all add: wf_row_length [OF assms s])
    then show "map ?g (trailPositions e) ! s = replicate (nat (trailLength e)) (?g ?z) ! s"
      using s by (simp add: wf_ring_length [OF assms])
  qed
  then show "fst (initializeParticles_loop rs e k) = replicate (nat (trailLength e)) (?g ?z)"
    by (simp add: eq)
qed

lemma construct_alloc:
  assumes "0 \<le> pcount" "1 \<le> tlen" "allocates rs (pcount * tlen * 3)"
  shows "construct rs f pcount tlen cstart cend k
           = initializeParticles rs
               (\<lparr> positions = replicate (nat (pcount * tlen * 3)) (Num 0),
                   colors = replicate (nat (pcount * tlen * 3)) (Num 0),
                   sizes = replicate (nat (pcount * tlen)) (Num 0),
                   trailPositions = replicate (nat tlen) (replicate (nat (pcount * 3)) (Num 0)),
                   trailIndex = Some 0, particleCount = pcount, trailLength = tlen,
                   colorStart = cstart, colorEnd = cend,
                   currentAttractor = f, currentParams = params f,
                   geometryDisposed = False, materialDisposed = False \<rparr>, k)"
proof -
  note al = assms(3) allocates_parts(1) [OF assms(3)] allocates_parts(2) [OF assms(3,2,1)]
  then show ?thesis
    by (simp add: construct_def new_Float32Array_ok new_trails_ok Let_def)
qed

lemma construct_alloc_wf:
  assumes "0 \<le> pcount" "1 \<le> tlen"
  shows "wf \<lparr> positions = replicate (nat (pcount * tlen * 3)) (Num 0),
              colors = replicate (nat (pcount * tlen * 3)) (Num 0),
              sizes = replicate (nat (pcount * tlen)) (Num 0),
              trailPositions = replicate (nat tlen) (replicate (nat (pcount * 3)) (Num 0)),
              trailIndex = Some 0, particleCount = pcount, trailLength = tlen,
              colorStart = cstart, colorEnd = cend,
              currentAttractor = f, currentParams = params f,
              geometryDisposed = False, materialDisposed = False \<rparr>"
  using assms by (simp add: wf_def nat_mult_distrib)

text \<open>Seeding a well-formed engine and repacking: the outcome in full.\<close>

lemma initializeParticles_seeds:
  fixes rs :: runtime and k :: nat
  assumes "wf e"
  defines "ring \<equiv> replicate (nat (trailLength e))
               (fold (\<lambda>i r. store3 r i
                        (sample_position rs (scale (currentAttractor e)) (k + 3 * i)))
                  [0..<nat (particleCount e)] (replicate (nat (particleCount e) * 3) (Num 0)))"
  shows "initializeParticles rs (e, k)
           = Inr (updateBuffers_loop (e\<lparr>trailPositions := ring\<rparr>),
                  k + 3 * nat (particleCount e))"
    and "wf (e\<lparr>trailPositions := ring\<rparr>)"
proof -
  note s = seeded_ring [OF assms(1), of rs k, folded ring_def]
  show "initializeParticles rs (e, k)
           = Inr (updateBuffers_loop (e\<lparr>trailPositions := ring\<rparr>),
                  k + 3 * nat (particleCount e))"
    using initializeParticles_wf_eq(1) [OF assms(1), of rs k] by (simp add: s)
  show "wf (e\<lparr>trailPositions := ring\<rparr>)"
    using assms(1) initializeParticles_loop_shape [of rs e k] by (simp add: wf_def s(1))
qed

lemma seeded_pos_value:
  assumes "wf (e\<lparr>trailPositions := replicate (nat (trailLength e)) row\<rparr>)"
    and "trailIndex e = Some j" and "i < nat (particleCount e)" and "c < 3"
  shows "pos_value (e\<lparr>trailPositions := replicate (nat (trailLength e)) row\<rparr>) i t c
           = f32 (jmul (row ! (i * 3 + c)) (scale (currentAttractor e)))"
proof -
  let ?e = "e\<lparr>trailPositions := replicate (nat (trailLength e)) row\<rparr>"
  from assms(1) have T: "0 < trailLength e" by (simp add: wf_def)
  then have "nat ((j + int t) mod trailLength e) < nat (trailLength e)" by simp
  then show ?thesis
    using pos_value_wf [OF assms(1), of j i c t] assms(2,3,4) by simp
qed

lemma setAttractor_nonempty:
  assumes "reachable rs (e, k)" and "1 \<le> trailLength e"
  shows "\<exists>e1 e2 k'.
      setAttractor rs f (e, k) = Inr (e1, k')
      \<and> construct rs f (particleCount e) (trailLength e) (colorStart e) (colorEnd e) k
          = Inr (e2, k')
      \<and> e1 = e2\<lparr>trailIndex := trailIndex e, geometryDisposed := geometryDisposed e,
                materialDisposed := materialDisposed e\<rparr>
      \<and> getParticleCount e1 = getParticleCount e
      \<and> currentAttractor e1 = f \<and> currentParams e1 = params f
      \<and> trailPositions e1
          = replicate (nat (trailLength e))
              (fold (\<lambda>i r. store3 r i (sample_position rs (scale f) (k + 3 * i)))
                 [0..<nat (particleCount e)] (replicate (nat (particleCount e) * 3) (Num 0)))"
proof -
  let ?n = "particleCount e" and ?T = "trailLength e"
  let ?row = "fold (\<lambda>i r. store3 r i (sample_position rs (scale f) (k + 3 * i)))
                [0..<nat ?n] (replicate (nat ?n * 3) (Num 0))"
  let ?ring = "replicate (nat ?T) ?row"
  let ?a = "e\<lparr>currentAttractor := f, currentParams := params f\<rparr>"
  let ?c = "\<lparr> positions = replicate (nat (?n * ?T * 3)) (Num 0),
              colors = replicate (nat (?n * ?T * 3)) (Num 0),
              sizes = replicate (nat (?n * ?T)) (Num 0),
              trailPositions = replicate (nat ?T) (replicate (nat (?n * 3)) (Num 0)),
              trailIndex = Some 0, particleCount = ?n, trailLength = ?T,
              colorStart = colorStart e, colorEnd = colorEnd e,
              currentAttractor = f, currentParams = params f,
              geometryDisposed = False, materialDisposed = False \<rparr>"
  let ?A = "?a\<lparr>trailPositions := ?ring\<rparr>" and ?C = "?c\<lparr>trailPositions := ?ring\<rparr>"
  from assms have wf: "wf e"
    using reachable_wf [of rs "(e, k)"] by simp
  then have n: "0 \<le> ?n" and wfa: "wf ?a" by (simp_all add: wf_def)
  from wf obtain j where j: "trailIndex e = Some j" by (auto simp: wf_def)
  from reachable_allocates [OF assms(1)]
  have al: "allocates rs (particleCount e * trailLength e * 3)" by simp
  note alloc1 = construct_alloc [OF n assms(2) al, where f = f
      and cstart = "colorStart e" and cend = "colorEnd e" and k = k]
  note alloc2 = construct_alloc_wf [OF n assms(2), where f = f
      and cstart = "colorStart e" and cend = "colorEnd e"]
  note sa = initializeParticles_seeds [OF wfa, of rs k]
  note sc = initializeParticles_seeds [OF alloc2, of rs k]
  have set: "setAttractor rs f (e, k) = Inr (updateBuffers_loop ?A, k + 3 * nat ?n)"
    using sa(1) by (simp add: setAttractor_def)
  have con: "construct rs f ?n ?T (colorStart e) (colorEnd e) k
               = Inr (updateBuffers_loop ?C, k + 3 * nat ?n)"
    using sc(1) by (simp add: alloc1)
  have wfA: "wf ?A" using sa(2) by simp
  have wfC: "wf ?C" using sc(2) by simp
  have pv: "pos_value ?A i t c = pos_value ?C i t c"
    if "i < nat (particleCount ?A)" "t < nat (trailLength ?A)" "c < 3" for i t c
    using seeded_pos_value [of ?a ?row j i c t] seeded_pos_value [of ?c ?row 0 i c t]
      wfA wfC that j
    by simp
  have cv: "color_value ?A t c = color_value ?C t c" for t c
    by (simp add: color_value_def trailFactor_def)
  have sv: "size_value ?A t = size_value ?C t" for t
    by (simp add: size_value_def trailFactor_def)
  have nT: "particleCount ?A = particleCount ?C" "trailLength ?A = trailLength ?C"
    by simp_all
  note bufs = updateBuffers_loop_cong [OF wfA wfC nT pv cv sv]
  have eq: "updateBuffers_loop ?A
              = (updateBuffers_loop ?C)\<lparr>trailIndex := trailIndex e,
                   geometryDisposed := geometryDisposed e,
                   materialDisposed := materialDisposed e\<rparr>"
    using bufs by (intro ParticleSystem.equality) (simp_all add: updateBuffers_loop_fields)
  have "getParticleCount (updateBuffers_loop ?A) = getParticleCount e"
    "currentAttractor (updateBuffers_loop ?A) = f"
    "currentParams (updateBuffers_loop ?A) = params f"
    "trailPositions (updateBuffers_loop ?A) = ?ring"
    by (simp_all add: getParticleCount_def updateBuffers_loop_fields)
  with set con eq show ?thesis by blast
qed

text \<open>
  C6. \<^verbatim>\<open>setAttractor\<close> on a reachable engine returns the engine that the constructor
  builds for that field with the engine's particle count, trail length and colours and the
  same draws, but for the ring index, which stays where it is (and the disposal marks): the
  parameter snapshot is the field's defaults, the point count is unchanged, and the ring and
  all three renderable arrays are those of the fresh engine, every ring slot holding the
  newly sampled position of its particle, so that nothing of the engine's earlier ring or
  buffers is left.
\<close>

theorem setAttractor_reseeds_like_construct:
  assumes "reachable rs (e, k)"
  shows "\<exists>e1 e2 k'.
      setAttractor rs f (e, k) = Inr (e1, k')
      \<and> construct rs f (particleCount e) (trailLength e) (colorStart e) (colorEnd e) k
          = Inr (e2, k')
      \<and> e1 = e2\<lparr>trailIndex := trailIndex e, geometryDisposed := geometryDisposed e,
                materialDisposed := materialDisposed e\<rparr>
      \<and> getParticleCount e1 = getParticleCount e
      \<and> currentAttractor e1 = f \<and> currentParams e1 = params f
      \<and> trailPositions e1
          = replicate (nat (trailLength e))
              (fold (\<lambda>i r. store3 r i (sample_position rs (scale f) (k + 3 * i)))
                 [0..<nat (particleCount e)] (replicate (nat (particleCount e) * 3) (Num 0)))"
proof (cases "1 \<le> trailLength e")
  case True
  with assms show ?thesis by (rule setAttractor_nonempty)
next
  case False
  then have "trailLength e \<le> 0" by simp
  with assms show ?thesis by (rule setAttractor_degenerate)
qed

theorem setAttractor_reseeds_like_construct_witness:
  "reachable (rs_const (1 / 2)) (engine_1_2_updated, 3)
   \<and> \<not> isl (setAttractor (rs_const (1 / 2)) thomas (engine_1_2_updated, 3))
   \<and> \<not> isl (construct (rs_const (1 / 2)) thomas 1 2 white black 3)
   \<and> trailPositions (fst (projr (setAttractor (rs_const (1 / 2)) thomas (engine_1_2_updated, 3))))
       = trailPositions (fst (projr (construct (rs_const (1 / 2)) thomas 1 2 white black 3)))
   \<and> positions (fst (projr (setAttractor (rs_const (1 / 2)) thomas (engine_1_2_updated, 3))))
       = positions (fst (projr (construct (rs_const (1 / 2)) thomas 1 2 white black 3)))
   \<and> trailIndex (fst (projr (setAttractor (rs_const (1 / 2)) thomas (engine_1_2_updated, 3))))
       = Some 1"
proof -
  have r: "reachable (rs_const (1 / 2)) (engine_1_2_updated, 3)"
    using run_construct_1_2 run_update_1_2 by (blast intro: reachable.intros)
  have f: "particleCount engine_1_2_updated = 1" "trailLength engine_1_2_updated = 2"
    "colorStart engine_1_2_updated = white" "colorEnd engine_1_2_updated = black"
    "trailIndex engine_1_2_updated = Some 1"
    by (simp_all add: engine_1_2_updated_def)
  from setAttractor_reseeds_like_construct [OF r, of thomas] obtain e1 e2 k' where
    "setAttractor (rs_const (1 / 2)) thomas (engine_1_2_updated, 3) = Inr (e1, k')"
    "construct (rs_const (1 / 2)) thomas 1 2 white black 3 = Inr (e2, k')"
    "e1 = e2\<lparr>trailIndex := Some 1, geometryDisposed := geometryDisposed engine_1_2_updated,
              materialDisposed := materialDisposed engine_1_2_updated\<rparr>"
    unfolding f by blast
  with r show ?thesis by simp
qed

text \<open>
  C4. An engine on the lorenz field with one particle and one trail slot (on a runtime that
  allocates its arrays of three elements), whose three draws seed the position
  \<open>(1, 1, 26)\<close>, with the default parameters: one \<^verbatim>\<open>update(1)\<close>, of
  effective time step \<open>0.005\<close>, stores the raw position
  \<open>(1 + 0 * 0.005, 1 + 1 * 0.005, 26 + (1 - 8/3 * 26) * 0.005)\<close>, which is
  \<open>(1, 1.005, 25.658)\<close> to three decimals.
\<close>

theorem lorenz_scenario:
  assumes "draw rs 0 = 5 / 6" and "draw rs 1 = 5 / 6" and "draw rs 2 = 5 / 6"
    and "3 \<le> max_length rs"
  shows "\<exists>e0 e1.
      construct rs lorenz 1 1 cstart cend 0 = Inr (e0, 3)
      \<and> trailPositions e0 = [[Num 1, Num 1, Num 26]]
      \<and> currentParams e0 = params lorenz
      \<and> jmul (dt (currentAttractor e0)) (Num 1) = Num (5 / 1000)
      \<and> update rs (Num 1) (e0, 3) = Inr (e1, 3)
      \<and> trailPositions e1
          = [[Num (1 + 0 * (5 / 1000)), Num (1 + 1 * (5 / 1000)),
              Num (26 + (1 - 8 / 3 * 26) * (5 / 1000))]]
      \<and> \<bar>26 + (1 - 8 / 3 * 26) * (5 / 1000) - 25658 / 1000\<bar> < (1 / 1000 :: real)"
proof -
  let ?c = "\<lparr> positions = replicate (nat (1 * 1 * 3)) (Num 0),
              colors = replicate (nat (1 * 1 * 3)) (Num 0),
              sizes = replicate (nat (1 * 1)) (Num 0),
              trailPositions = replicate (nat 1) (replicate (nat (1 * 3)) (Num 0)),
              trailIndex = Some 0, particleCount = 1, trailLength = 1,
              colorStart = cstart, colorEnd = cend,
              currentAttractor = lorenz, currentParams = params lorenz,
              geometryDisposed = False, materialDisposed = False \<rparr>"
  let ?e0 = "updateBuffers_loop (?c\<lparr>trailPositions := [[Num 1, Num 1, Num 26]]\<rparr>)"
  have d: "draw rs 0 = 5 / 6" "draw rs (0 + 1) = 5 / 6" "draw rs (0 + 2) = 5 / 6"
    using assms(1-3) by (simp_all add: numeral_2_eq_2)
  have al: "allocates rs (1 * 1 * 3)"
    using assms(4) by (simp add: allocates_def max_index_def)
  have sample: "sample_position rs (scale lorenz) 0 = (Num 1, Num 1, Num 26)"
    unfolding sample_position_def d
    by (simp add: random_coord_def lorenz_def jsub_def d64_small)
  have ring: "replicate (nat (trailLength ?c))
                (fold (\<lambda>i r. store3 r i (sample_position rs (scale (currentAttractor ?c)) (0 + 3 * i)))
                   [0..<nat (particleCount ?c)] (replicate (nat (particleCount ?c) * 3) (Num 0)))
              = [[Num 1, Num 1, Num 26]]"
    by (simp add: sample store3_def f32_set_def f32_small eval_nat_numeral del: f32.simps(1))
  have alloc: "construct rs lorenz 1 1 cstart cend 0 = initializeParticles rs (?c, 0)"
    by (rule construct_alloc [OF _ _ al]) simp_all
  have wfc: "wf ?c" by (rule construct_alloc_wf) simp_all
  note seeds = initializeParticles_seeds [OF wfc, of rs 0, unfolded ring]
  have c: "construct rs lorenz 1 1 cstart cend 0 = Inr (?e0, 3)"
    using seeds(1) by (simp add: alloc)
  have wf0: "wf ?e0"
    using seeds(2) by (rule wf_updateBuffers_loop)
  have f0: "trailPositions ?e0 = [[Num 1, Num 1, Num 26]]" "trailIndex ?e0 = Some 0"
    "trailLength ?e0 = 1" "particleCount ?e0 = 1" "currentAttractor ?e0 = lorenz"
    "currentParams ?e0 = params lorenz"
    by (simp_all add: updateBuffers_loop_fields)
  have h: "jmul (dt lorenz) (Num 1) = Num (5 / 1000)"
    by (simp add: lorenz_def d64_small)
  have st: "step lorenz (Num 1) (Num 1) (Num 26) (params lorenz) (Num (5 / 1000))
              = (Num 1, Num (201 / 200), Num (3079 / 120))"
    by (simp add: lorenz_def lorenz_step_def euler_def pget_def jsub_def d64_small)
  have pn: "particle_next rs lorenz (params lorenz) (Num (5 / 1000)) [Num 1, Num 1, Num 26] 0 3
              = ((Num 1, Num (201 / 200), Num (3079 / 120)), 3)"
    using st by (simp add: particle_next_def f32_get_def all_finite_def Let_def)
  from update_wf [OF wf0 f0(2), of rs "Num 1" 3]
  obtain e1 k1 where u: "update rs (Num 1) (?e0, 3) = Inr (e1, k1)" by blast
  note ring1 = update_ring [OF wf0 f0(2) u]
  have k1: "k1 = 3"
    using ring1(2) h pn by (simp add: updateBuffers_loop_fields)
  have tp1: "trailPositions e1 = [[Num 1, Num (201 / 200), Num (3079 / 120)]]"
    using ring1(1) h pn
    by (simp add: updateBuffers_loop_fields stored_next_def store3_def f32_set_def f32_small
          del: f32.simps(1))
  have "\<bar>26 + (1 - 8 / 3 * 26) * (5 / 1000) - 25658 / 1000\<bar> < (1 / 1000 :: real)"
    by simp
  with c f0 h u k1 tp1 show ?thesis by simp
qed

theorem lorenz_scenario_witness:
  "draw (rs_const (5 / 6)) 0 = 5 / 6 \<and> draw (rs_const (5 / 6)) 1 = 5 / 6
   \<and> draw (rs_const (5 / 6)) 2 = 5 / 6 \<and> 3 \<le> max_length (rs_const (5 / 6))
   \<and> \<not> isl (construct (rs_const (5 / 6)) lorenz 1 1 white black 0)
   \<and> trailPositions (fst (projr (construct (rs_const (5 / 6)) lorenz 1 1 white black 0)))
       = [[Num 1, Num 1, Num 26]]
   \<and> trailPositions (fst (projr (update (rs_const (5 / 6)) (Num 1)
        (projr (construct (rs_const (5 / 6)) lorenz 1 1 white black 0)))))
       = [[Num 1, Num (201 / 200), Num (3079 / 120)]]"
proof -
  have d: "draw (rs_const (5 / 6)) 0 = 5 / 6" "draw (rs_const (5 / 6)) 1 = 5 / 6"
    "draw (rs_const (5 / 6)) 2 = 5 / 6" "3 \<le> max_length (rs_const (5 / 6))"
    by (simp_all add: rs_const_def)
  from lorenz_scenario [OF d, of white black] obtain e0 e1 where
    "construct (rs_const (5 / 6)) lorenz 1 1 white black 0 = Inr (e0, 3)"
    "trailPositions e0 = [[Num 1, Num 1, Num 26]]"
    "update (rs_const (5 / 6)) (Num 1) (e0, 3) = Inr (e1, 3)"
    "trailPositions e1
       = [[Num (1 + 0 * (5 / 1000)), Num (1 + 1 * (5 / 1000)),
           Num (26 + (1 - 8 / 3 * 26) * (5 / 1000))]]"
    by blast
  with d show ?thesis by simp
qed

section \<open>Finiteness of the stored coordinates\<close>

lemma overflow_mid: "2 ^ 210 < dbl_overflow" "f32_overflow < 2 ^ 128"
  by (simp_all add: dbl_overflow_def f32_overflow_def)

lemma d64_mid: "\<bar>x\<bar> \<le> 2 ^ 210 \<Longrightarrow> d64 x = Num x"
  using overflow_mid(1) by (auto simp: d64_def)

lemma f32_big: "2 ^ 128 \<le> x \<Longrightarrow> f32 (Num x) = PosInf"
  using overflow_mid(2) by auto

lemma run_construct_1_1:
  "construct (rs_const (3 / 4)) lorenz 1 1 white black 0 = Inr (engine_1_1, 3)"
  unfolding engine_1_1_def by (simp add: eval_defs del: f32.simps(1))

lemma big_rho_step:
  "step lorenz (Num (3 / 4)) (Num (3 / 4)) (Num (103 / 4)) big_rho (jmul (dt lorenz) (Num 1))
     = (Num (3 / 4), Num (3 / 4 + (3 / 4 * (2 ^ 200 - 103 / 4) - 3 / 4) * (5 / 1000)),
        Num (243931 / 9600))"
  by (simp add: lorenz_def lorenz_step_def euler_def big_rho_def pget_def jsub_def d64_mid)

lemma run_update_1_1:
  "update (rs_const (3 / 4)) (Num 1) (setParams big_rho engine_1_1, 3)
     = Inr (engine_1_1_diverged, 3)"
  unfolding engine_1_1_def engine_1_1_diverged_def setParams_def
  by (simp add: construct_def new_Float32Array_def allocates_rs_const Math_random_def
        random_coord_def
        updateBuffers_def updateBuffers_loop_def ub_write_def ub_trailIdx_def ring_read_def
        slot_index_def js_rem_def idx_add_def f32_get_def f32_set_def lerpColors_def lerp_def
        update_def update_loop_def update_particle_def lorenz_def lorenz_step_def euler_def
        pget_def jsub_def big_rho_def d64_mid f32_small f32_big draw_rs_const white_def
        black_def Let_def eval_nat_numeral
      del: f32.simps(1))

text \<open>
  C1. The claim fails on the code. The engine of one particle and one trail slot on the lorenz
  field, seeded at \<open>(3/4, 3/4, 103/4)\<close>, is given \<open>rho = 2^200\<close> by \<^verbatim>\<open>setParams\<close> and updated
  once. The step result is finite as a double, so the check in \<^verbatim>\<open>update\<close> does not resample
  (the draw counter stays at 3); its \<open>y\<close> is beyond the binary32 range, so the store into the
  \<^verbatim>\<open>Float32Array\<close> ring slot makes it \<open>Infinity\<close>, which \<^verbatim>\<open>updateBuffers\<close> copies into
  \<open>positions\<close>. The state is reachable.
\<close>

theorem nonfinite_enters_buffers:
  "construct (rs_const (3 / 4)) lorenz 1 1 white black 0 = Inr (engine_1_1, 3)
   \<and> all_finite (step lorenz (Num (3 / 4)) (Num (3 / 4)) (Num (103 / 4)) big_rho
                   (jmul (dt lorenz) (Num 1)))
   \<and> update (rs_const (3 / 4)) (Num 1) (setParams big_rho engine_1_1, 3)
       = Inr (engine_1_1_diverged, 3)
   \<and> reachable (rs_const (3 / 4)) (engine_1_1_diverged, 3)
   \<and> trailPositions engine_1_1_diverged = [[Num (3 / 4), PosInf, Num (243931 / 9600)]]
   \<and> positions engine_1_1_diverged = [Num (9 / 8), PosInf, Num (243931 / 6400)]
   \<and> \<not> isFinite (trailPositions engine_1_1_diverged ! 0 ! 1)
   \<and> \<not> isFinite (positions engine_1_1_diverged ! 1)"
proof -
  have "reachable (rs_const (3 / 4)) (engine_1_1, 3)"
    using run_construct_1_1 by (rule r_construct)
  then have "reachable (rs_const (3 / 4)) (setParams big_rho engine_1_1, 3)"
    by (rule r_setParams)
  then have r: "reachable (rs_const (3 / 4)) (engine_1_1_diverged, 3)"
    using run_update_1_1 by (rule r_update)
  have f: "all_finite (step lorenz (Num (3 / 4)) (Num (3 / 4)) (Num (103 / 4)) big_rho
                   (jmul (dt lorenz) (Num 1)))"
    by (simp only: big_rho_step all_finite_def fst_conv snd_conv isFinite.simps simp_thms)
  have "trailPositions engine_1_1_diverged = [[Num (3 / 4), PosInf, Num (243931 / 9600)]]"
    "positions engine_1_1_diverged = [Num (9 / 8), PosInf, Num (243931 / 6400)]"
    by (simp_all add: engine_1_1_diverged_def)
  with r f show ?thesis
    by (simp add: run_construct_1_1 run_update_1_1)
qed

end
